theory Spec2Isabelle
  imports Main
begin

section \<open>Python values\<close>

text \<open>
  The agent moves JSON-shaped Python values around: the parsed replies of the language
  model, the argument dictionaries of tool calls, the turns of the history and the parsed
  bodies of the booking API.  A dictionary is an association list with string keys, read
  with \<open>map_of\<close> (the first binding of a key is the one that counts).  A string is the
  UTF-8 encoding of the Python string, a list of bytes.  JSON numbers are integers here:
  floating point values are outside this model.
\<close>

datatype pyval =
    PNone
  | PBool bool
  | PInt int
  | PStr string
  | PList "pyval list"
  | PDict "(string \<times> pyval) list"

text \<open>
  Exceptions.  \<open>ToolError\<close> is the domain error of \<open>tools.py\<close>; the other constructors
  are the built-in exceptions the code can meet.  Each carries the text of \<open>str(e)\<close>; for
  the built-in ones the text follows the interpreter's wording and no property rests on it
  beyond the kind of the exception.
\<close>

datatype exn =
    ToolError string
  | TypeError string
  | AttributeError string
  | KeyError string
  | ValueError string

fun exn_message :: "exn \<Rightarrow> string" where
  "exn_message (ToolError m) = m"
| "exn_message (TypeError m) = m"
| "exn_message (AttributeError m) = m"
| "exn_message (KeyError m) = m"
| "exn_message (ValueError m) = m"

fun is_ToolError :: "exn \<Rightarrow> bool" where
  "is_ToolError (ToolError m) = True"
| "is_ToolError e = False"

text \<open>Truth value testing (\<open>if v\<close>, \<open>not v\<close>, \<open>v or d\<close>).\<close>

fun truthy :: "pyval \<Rightarrow> bool" where
  "truthy PNone = False"
| "truthy (PBool b) = b"
| "truthy (PInt i) = (i \<noteq> 0)"
| "truthy (PStr s) = (s \<noteq> [])"
| "truthy (PList xs) = (xs \<noteq> [])"
| "truthy (PDict kvs) = (kvs \<noteq> [])"

definition py_or :: "pyval \<Rightarrow> pyval \<Rightarrow> pyval" where
  "py_or v d = (if truthy v then v else d)"

fun type_name :: "pyval \<Rightarrow> string" where
  "type_name PNone = ''NoneType''"
| "type_name (PBool b) = ''bool''"
| "type_name (PInt i) = ''int''"
| "type_name (PStr s) = ''str''"
| "type_name (PList xs) = ''list''"
| "type_name (PDict kvs) = ''dict''"

fun is_str :: "pyval \<Rightarrow> bool" where
  "is_str (PStr s) = True"
| "is_str v = False"

definition quoted :: "string \<Rightarrow> string" where
  "quoted s = CHR 39 # s @ [CHR 39]"

definition no_attribute :: "pyval \<Rightarrow> string \<Rightarrow> exn" where
  "no_attribute v a =
     AttributeError (quoted (type_name v) @ '' object has no attribute '' @ quoted a)"

text \<open>\<open>d.get(k, default)\<close>: only a dictionary has the method.\<close>

fun py_get :: "pyval \<Rightarrow> string \<Rightarrow> pyval \<Rightarrow> exn + pyval" where
  "py_get (PDict kvs) k d = Inr (case map_of kvs k of None \<Rightarrow> d | Some v \<Rightarrow> v)"
| "py_get v k d = Inl (no_attribute v ''get'')"

text \<open>The value of \<open>d.get(k)\<close> on a dictionary.\<close>

definition dict_get :: "(string \<times> pyval) list \<Rightarrow> string \<Rightarrow> pyval" where
  "dict_get kvs k = (case map_of kvs k of None \<Rightarrow> PNone | Some v \<Rightarrow> v)"

text \<open>\<open>d[k] = v\<close> on a dictionary: an existing key keeps its place, a new one goes last.\<close>

fun dict_set :: "string \<Rightarrow> pyval \<Rightarrow> (string \<times> pyval) list \<Rightarrow> (string \<times> pyval) list" where
  "dict_set k v [] = [(k, v)]"
| "dict_set k v (p # ps) = (if fst p = k then (k, v) # ps else p # dict_set k v ps)"

fun dict_del :: "string \<Rightarrow> (string \<times> pyval) list \<Rightarrow> (string \<times> pyval) list" where
  "dict_del k [] = []"
| "dict_del k (p # ps) = (if fst p = k then dict_del k ps else p # dict_del k ps)"

definition dict_keys :: "(string \<times> pyval) list \<Rightarrow> string list" where
  "dict_keys kvs = remdups (map fst kvs)"

subsection \<open>Strings\<close>

definition startswith :: "string \<Rightarrow> string \<Rightarrow> bool" where
  "startswith s p = (take (length p) s = p)"

text \<open>
  The white space of \<open>str.strip()\<close> and \<open>int()\<close>: the code points for which
  \<open>str.isspace\<close> holds, each in its UTF-8 encoding.  They are U+0009 to U+000D, U+001C
  to U+0020, U+0085, U+00A0, U+1680, U+2000 to U+200A, U+2028, U+2029, U+202F, U+205F and
  U+3000.
\<close>

definition SPACES :: "string list" where
  "SPACES =
    [[CHR 0x09], [CHR 0x0A], [CHR 0x0B], [CHR 0x0C], [CHR 0x0D], [CHR 0x1C], [CHR 0x1D],
     [CHR 0x1E], [CHR 0x1F], [CHR 0x20], [CHR 0xC2, CHR 0x85], [CHR 0xC2, CHR 0xA0],
     [CHR 0xE1, CHR 0x9A, CHR 0x80], [CHR 0xE2, CHR 0x80, CHR 0x80],
     [CHR 0xE2, CHR 0x80, CHR 0x81], [CHR 0xE2, CHR 0x80, CHR 0x82],
     [CHR 0xE2, CHR 0x80, CHR 0x83], [CHR 0xE2, CHR 0x80, CHR 0x84],
     [CHR 0xE2, CHR 0x80, CHR 0x85], [CHR 0xE2, CHR 0x80, CHR 0x86],
     [CHR 0xE2, CHR 0x80, CHR 0x87], [CHR 0xE2, CHR 0x80, CHR 0x88],
     [CHR 0xE2, CHR 0x80, CHR 0x89], [CHR 0xE2, CHR 0x80, CHR 0x8A],
     [CHR 0xE2, CHR 0x80, CHR 0xA8], [CHR 0xE2, CHR 0x80, CHR 0xA9],
     [CHR 0xE2, CHR 0x80, CHR 0xAF], [CHR 0xE2, CHR 0x81, CHR 0x9F],
     [CHR 0xE3, CHR 0x80, CHR 0x80]]"

text \<open>
  The number of bytes of the white-space code point a text starts with, and of the one it
  ends with; \<open>0\<close> when there is none.
\<close>

definition space_prefix :: "string \<Rightarrow> nat" where
  "space_prefix s = (case filter (startswith s) SPACES of [] \<Rightarrow> 0 | p # ps \<Rightarrow> length p)"

definition space_suffix :: "string \<Rightarrow> nat" where
  "space_suffix s =
     (case filter (\<lambda>p. startswith (rev s) (rev p)) SPACES of [] \<Rightarrow> 0 | p # ps \<Rightarrow> length p)"

function lstrip :: "string \<Rightarrow> string" where
  "lstrip s =
     (if s = [] \<or> space_prefix s = 0 then s else lstrip (drop (space_prefix s) s))"
  by pat_completeness auto
termination
  by (relation "measure length") auto

function rstrip :: "string \<Rightarrow> string" where
  "rstrip s =
     (if s = [] \<or> space_suffix s = 0 then s else rstrip (take (length s - space_suffix s) s))"
  by pat_completeness auto
termination
  by (relation "measure length") auto

definition py_strip :: "string \<Rightarrow> string" where
  "py_strip s = rstrip (lstrip s)"

text \<open>\<open>s.strip(cs)\<close> for ASCII characters \<open>cs\<close>.\<close>

definition strip_chars :: "string \<Rightarrow> string \<Rightarrow> string" where
  "strip_chars cs s =
     rev (dropWhile (\<lambda>c. c \<in> set cs) (rev (dropWhile (\<lambda>c. c \<in> set cs) s)))"

definition lower_char :: "char \<Rightarrow> char" where
  "lower_char c =
     (if 65 \<le> (of_char c :: nat) \<and> (of_char c :: nat) \<le> 90
      then char_of (of_char c + 32 :: nat) else c)"

definition py_lower :: "string \<Rightarrow> string" where
  "py_lower s = map lower_char s"

text \<open>\<open>s.replace(a, b)\<close> for single characters, \<open>sep.join(xs)\<close>.\<close>

definition replace_char :: "char \<Rightarrow> char \<Rightarrow> string \<Rightarrow> string" where
  "replace_char a b s = map (\<lambda>c. if c = a then b else c) s"

fun join :: "string \<Rightarrow> string list \<Rightarrow> string" where
  "join sep [] = []"
| "join sep [x] = x"
| "join sep (x # y # ys) = x @ sep @ join sep (y # ys)"

text \<open>\<open>s.find(c)\<close> and \<open>s.rfind(c)\<close> for a single character: the index, or \<open>-1\<close>.\<close>

fun py_find :: "char \<Rightarrow> string \<Rightarrow> int" where
  "py_find c [] = -1"
| "py_find c (x # xs) =
     (if x = c then 0 else (let r = py_find c xs in if r = -1 then -1 else r + 1))"

definition py_rfind :: "char \<Rightarrow> string \<Rightarrow> int" where
  "py_rfind c s =
     (let r = py_find c (rev s) in if r = -1 then -1 else int (length s) - 1 - r)"

text \<open>The slice \<open>s[lb:hi]\<close> for \<open>0 \<le> lb\<close>.\<close>

definition slice :: "int \<Rightarrow> int \<Rightarrow> 'a list \<Rightarrow> 'a list" where
  "slice lb hi s = take (nat (hi - lb)) (drop (nat lb) s)"

text \<open>\<open>sub in s\<close> on strings.\<close>

fun contains_sub :: "string \<Rightarrow> string \<Rightarrow> bool" where
  "contains_sub sub [] = (sub = [])"
| "contains_sub sub (x # xs) = (startswith (x # xs) sub \<or> contains_sub sub xs)"

subsection \<open>Integers and text\<close>

definition is_digit :: "char \<Rightarrow> bool" where
  "is_digit c = (48 \<le> (of_char c :: nat) \<and> (of_char c :: nat) \<le> 57)"

definition digit_val :: "char \<Rightarrow> nat" where
  "digit_val c = of_char c - 48"

text \<open>
  The digits of an integer literal as \<open>int(s)\<close> reads them: at least one digit, single
  underscores allowed between digits.  The flag says whether the previous character was
  a digit.  The digits are the ASCII digits; \<open>int\<close> also reads the decimal digits of other
  scripts, which this model takes for text that is not a number.
\<close>

fun parse_digits :: "bool \<Rightarrow> nat \<Rightarrow> string \<Rightarrow> nat option" where
  "parse_digits prev acc [] = (if prev then Some acc else None)"
| "parse_digits prev acc (c # cs) =
     (if is_digit c then parse_digits True (acc * 10 + digit_val c) cs
      else if c = CHR ''_'' \<and> prev \<and> cs \<noteq> [] \<and> is_digit (hd cs) then parse_digits False acc cs
      else None)"

definition int_of_string :: "string \<Rightarrow> int option" where
  "int_of_string s =
     (case py_strip s of
        [] \<Rightarrow> None
      | c # cs \<Rightarrow>
          if c = CHR ''-'' then map_option (\<lambda>n. - int n) (parse_digits False 0 cs)
          else if c = CHR ''+'' then map_option int (parse_digits False 0 cs)
          else map_option int (parse_digits False 0 (c # cs)))"

function show_nat :: "nat \<Rightarrow> string" where
  "show_nat n =
     (if n < 10 then [char_of (48 + n)] else show_nat (n div 10) @ [char_of (48 + n mod 10)])"
  by pat_completeness auto
termination
  by (relation "measure (\<lambda>n. n)") auto

definition show_int :: "int \<Rightarrow> string" where
  "show_int i = (if i < 0 then CHR ''-'' # show_nat (nat (- i)) else show_nat (nat i))"

text \<open>
  \<open>repr\<close> of a string: single quotes unless the text has a single quote and no double
  quote; backslash, the quote and the ASCII control characters are escaped.  Bytes above
  ASCII are kept: \<open>repr\<close> also escapes the code points there that are not printable,
  which this model does not.
\<close>

definition hex_digit :: "nat \<Rightarrow> char" where
  "hex_digit n = (if n < 10 then char_of (48 + n) else char_of (87 + n))"

definition repr_char :: "char \<Rightarrow> char \<Rightarrow> string" where
  "repr_char q c =
     (if c = CHR 92 then [CHR 92, CHR 92]
      else if c = q then [CHR 92, q]
      else if c = CHR 10 then [CHR 92, CHR ''n'']
      else if c = CHR 13 then [CHR 92, CHR ''r'']
      else if c = CHR 9 then [CHR 92, CHR ''t'']
      else if (of_char c :: nat) < 32 \<or> (of_char c :: nat) = 127
        then [CHR 92, CHR ''x'', hex_digit (of_char c div 16), hex_digit (of_char c mod 16)]
      else [c])"

definition repr_string :: "string \<Rightarrow> string" where
  "repr_string s =
     (let q = (if CHR 39 \<in> set s \<and> CHR 34 \<notin> set s then CHR 34 else CHR 39)
      in q # concat (map (repr_char q) s) @ [q])"

text \<open>The built-in \<open>int(v)\<close>.\<close>

fun py_int :: "pyval \<Rightarrow> exn + int" where
  "py_int (PInt i) = Inr i"
| "py_int (PBool b) = Inr (if b then 1 else 0)"
| "py_int (PStr s) =
     (case int_of_string s of
        None \<Rightarrow> Inl (ValueError (''invalid literal for int() with base 10: '' @ repr_string s))
      | Some i \<Rightarrow> Inr i)"
| "py_int v =
     Inl (TypeError (''int() argument must be a string, a bytes-like object or a real number, not ''
                     @ quoted (type_name v)))"

fun py_repr :: "pyval \<Rightarrow> string" where
  "py_repr PNone = ''None''"
| "py_repr (PBool b) = (if b then ''True'' else ''False'')"
| "py_repr (PInt i) = show_int i"
| "py_repr (PStr s) = repr_string s"
| "py_repr (PList xs) = ''['' @ join '', '' (map py_repr xs) @ '']''"
| "py_repr (PDict kvs) =
     ''{'' @ join '', '' (map (\<lambda>kv. repr_string (fst kv) @ '': '' @ py_repr (snd kv)) kvs) @ ''}''"

text \<open>\<open>str(v)\<close>, which is also what an f-string puts in place of \<open>{v}\<close>.\<close>

fun py_str :: "pyval \<Rightarrow> string" where
  "py_str (PStr s) = s"
| "py_str v = py_repr v"

text \<open>\<open>v[k]\<close> with a string key.\<close>

fun py_index :: "pyval \<Rightarrow> string \<Rightarrow> exn + pyval" where
  "py_index (PDict kvs) k =
     (case map_of kvs k of None \<Rightarrow> Inl (KeyError (repr_string k)) | Some v \<Rightarrow> Inr v)"
| "py_index (PList xs) k = Inl (TypeError ''list indices must be integers or slices, not str'')"
| "py_index (PStr s) k = Inl (TypeError (''string indices must be integers, not '' @ quoted ''str''))"
| "py_index v k = Inl (TypeError (quoted (type_name v) @ '' object is not subscriptable''))"

text \<open>\<open>k in v\<close> with a string \<open>k\<close>.\<close>

fun py_in :: "string \<Rightarrow> pyval \<Rightarrow> exn + bool" where
  "py_in k (PDict kvs) = Inr (k \<in> fst ` set kvs)"
| "py_in k (PList xs) = Inr (PStr k \<in> set xs)"
| "py_in k (PStr s) = Inr (contains_sub k s)"
| "py_in k v = Inl (TypeError (''argument of type '' @ quoted (type_name v) @ '' is not iterable''))"

section \<open>The outside world\<close>

text \<open>
  The language model and the booking API are outside the program.  The model's answer to
  the \<open>n\<close>-th request is \<open>llm env n\<close>: the text of the first completion, or \<open>None\<close>
  when \<open>_call_openrouter\<close> caught a transport failure.  The booking API's answer to the
  \<open>n\<close>-th HTTP request is \<open>http env n req\<close>.  Both are arbitrary functions, so a
  theorem for every \<open>env\<close> holds for every behaviour of the two services.  The library
  functions \<open>json.loads\<close>, \<open>json.dumps\<close> and \<open>datetime.strptime\<close> are parameters
  too: \<open>json_loads env s\<close> is \<open>None\<close> when the parser raises, and
  \<open>strptime_ok env fmt s\<close> says whether \<open>s\<close> parses with the format \<open>fmt\<close>.
\<close>

datatype http_method = GET | POST | PATCH

record http_request =
  req_method :: http_method
  req_url :: string
  req_data :: "(string \<times> pyval) list option"

datatype http_outcome =
    HttpFailed string
  | HttpBadJson
  | HttpJson pyval

record env =
  llm :: "nat \<Rightarrow> string option"
  json_loads :: "string \<Rightarrow> pyval option"
  json_dumps :: "pyval \<Rightarrow> string"
  http :: "nat \<Rightarrow> http_request \<Rightarrow> http_outcome"
  strptime_ok :: "string \<Rightarrow> string \<Rightarrow> bool"

text \<open>What the program has done to the world so far.\<close>

record world =
  llm_calls :: nat
  http_log :: "http_request list"

type_synonym 'a result = "(exn + 'a) \<times> world"

section \<open>The booking tools (\<open>tools.py\<close>)\<close>

text \<open>
  The module defines \<open>ToolError\<close>, \<open>_normalize_time\<close>, \<open>_validate_date\<close>,
  \<open>_validate_time\<close> and \<open>_bool_to_str\<close> twice; the later definitions are the ones bound
  when a tool runs, and they are the ones modelled.
\<close>

definition BASE_URL :: string where
  "BASE_URL = ''http://localhost:8547/api/ConsumerApi/v1/Restaurant/''"

definition RESTAURANT_NAME :: string where
  "RESTAURANT_NAME = ''TheHungryUnicorn''"

text \<open>One HTTP request: the request is logged, the service answers.\<close>

definition send :: "env \<Rightarrow> http_request \<Rightarrow> world \<Rightarrow> http_outcome \<times> world" where
  "send env req w = (http env (length (http_log w)) req, w\<lparr>http_log := http_log w @ [req]\<rparr>)"

text \<open>
  The \<open>try\<close> block shared by \<open>call_api\<close> and \<open>call_api_get\<close>.  \<open>HttpFailed m\<close> is
  every outcome that raises a \<open>RequestException\<close> with text \<open>m\<close>: a transport failure, an
  error status at \<open>raise_for_status\<close>, and, where the installed \<open>requests\<close> makes its
  JSON error a \<open>RequestException\<close>, a body that is not JSON.  \<open>HttpBadJson\<close> is a body
  for which \<open>response.json()\<close> raises a plain \<open>ValueError\<close>.
\<close>

fun api_result :: "http_outcome \<Rightarrow> exn + pyval" where
  "api_result (HttpFailed m) = Inl (ToolError (''API request failed: '' @ m))"
| "api_result HttpBadJson = Inl (ToolError ''Invalid JSON response from server.'')"
| "api_result (HttpJson v) = Inr v"

definition call_api :: "env \<Rightarrow> string \<Rightarrow> (string \<times> pyval) list \<Rightarrow> world \<Rightarrow> pyval result" where
  "call_api env endpoint params w =
     (let url = BASE_URL @ RESTAURANT_NAME @ ''/'' @ endpoint;
          req = \<lparr>req_method = POST, req_url = url, req_data = Some params\<rparr>
      in case send env req w of (out, w') \<Rightarrow> (api_result out, w'))"

definition call_api_get ::
  "env \<Rightarrow> string \<Rightarrow> (string \<times> pyval) list \<Rightarrow> string \<Rightarrow> world \<Rightarrow> pyval result" where
  "call_api_get env endpoint params func_name w =
     (case map_of params ''booking_reference'' of
        None \<Rightarrow> (Inl (KeyError (repr_string ''booking_reference'')), w)
      | Some reference \<Rightarrow>
          (let url = BASE_URL @ RESTAURANT_NAME @ ''/'' @ endpoint @ ''/'' @ py_str reference;
               req =
                 (if func_name = ''check_reservation''
                    then \<lparr>req_method = GET, req_url = url, req_data = None\<rparr>
                  else if func_name \<noteq> []
                    then \<lparr>req_method = PATCH, req_url = url,
                          req_data = Some (dict_del ''booking_reference'' params)\<rparr>
                  else \<lparr>req_method = POST, req_url = url @ ''/Cancel'',
                          req_data = Some (dict_del ''booking_reference'' params)\<rparr>)
           in case send env req w of (out, w') \<Rightarrow> (api_result out, w')))"

definition check_availability :: "env \<Rightarrow> pyval \<Rightarrow> pyval \<Rightarrow> world \<Rightarrow> pyval result" where
  "check_availability env date people w =
     (if \<not> (truthy date \<and> truthy people)
        then (Inl (ToolError ''Missing date people for availability check.''), w)
      else
        (case call_api env ''AvailabilitySearch''
                [(''VisitDate'', date), (''PartySize'', people), (''ChannelCode'', PStr ''ONLINE'')] w of
           (Inl e, w') \<Rightarrow> (Inl e, w')
         | (Inr response, w') \<Rightarrow> (py_index response ''available_slots'', w')))"

definition bool_to_str :: "pyval \<Rightarrow> string" where
  "bool_to_str v = (if truthy v then ''true'' else ''false'')"

text \<open>
  \<open>_validate_date\<close> and \<open>_validate_time\<close>: \<open>strptime\<close> raises \<open>ValueError\<close> on text that
  does not parse, which becomes a \<open>ToolError\<close>, and \<open>TypeError\<close> on a value that is not a
  string, which is not caught here.
\<close>

fun validate_date :: "env \<Rightarrow> pyval \<Rightarrow> exn option" where
  "validate_date env (PStr s) =
     (if strptime_ok env ''%Y-%m-%d'' s then None
      else Some (ToolError ''VisitDate must be in YYYY-MM-DD format.''))"
| "validate_date env v =
     Some (TypeError (''strptime() argument 1 must be str, not '' @ type_name v))"

fun validate_time :: "env \<Rightarrow> pyval \<Rightarrow> exn option" where
  "validate_time env (PStr s) =
     (if strptime_ok env ''%H:%M:%S'' s then None
      else Some (ToolError ''VisitTime must be in HH:MM:SS format.''))"
| "validate_time env v =
     Some (TypeError (''strptime() argument 1 must be str, not '' @ type_name v))"

text \<open>\<open>len(time_str.split(":"))\<close> is one more than the number of colons.\<close>

fun normalize_time :: "pyval \<Rightarrow> exn + pyval" where
  "normalize_time (PStr s) =
     (let parts = Suc (length (filter (\<lambda>c. c = CHR '':'') s))
      in if parts = 2 then Inr (PStr (s @ '':00''))
         else if parts = 3 then Inr (PStr s)
         else Inl (ToolError ''VisitTime must be HH:MM or HH:MM:SS.''))"
| "normalize_time v = Inl (no_attribute v ''split'')"

text \<open>\<open>people <= 0\<close>.\<close>

fun py_le_zero :: "pyval \<Rightarrow> exn + bool" where
  "py_le_zero (PInt i) = Inr (i \<le> 0)"
| "py_le_zero (PBool b) = Inr (\<not> b)"
| "py_le_zero v =
     Inl (TypeError (quoted ''<='' @ '' not supported between instances of ''
                     @ quoted (type_name v) @ '' and '' @ quoted ''int''))"

text \<open>The loop over \<open>customer.items()\<close> that flattens the customer sub-fields.\<close>

fun flatten_customer ::
  "(string \<times> pyval) list \<Rightarrow> (string \<times> pyval) list \<Rightarrow> (string \<times> pyval) list" where
  "flatten_customer [] payload = payload"
| "flatten_customer ((key, v) # rest) payload =
     (if v = PNone then flatten_customer rest payload
      else (let s = py_strip (py_str v)
            in if s \<noteq> [] then flatten_customer rest (dict_set (''Customer['' @ key @ '']'') (PStr s) payload)
               else flatten_customer rest payload))"

definition customer_fields ::
  "pyval \<Rightarrow> (string \<times> pyval) list \<Rightarrow> exn + (string \<times> pyval) list" where
  "customer_fields customer payload =
     (if truthy customer then
        (case customer of
           PDict kvs \<Rightarrow>
             Inr (flatten_customer (map (\<lambda>k. (k, the (map_of kvs k))) (dict_keys kvs)) payload)
         | _ \<Rightarrow> Inl (no_attribute customer ''items''))
      else Inr payload)"

definition make_reservation ::
  "env \<Rightarrow> pyval \<Rightarrow> pyval \<Rightarrow> pyval \<Rightarrow> pyval \<Rightarrow> pyval \<Rightarrow> pyval \<Rightarrow> pyval \<Rightarrow> pyval \<Rightarrow> world
     \<Rightarrow> pyval result" where
  "make_reservation env date time people channel_code special_requests
       is_leave_time_confirmed room_number customer w =
     (if \<not> list_all truthy [date, time, people]
        then (Inl (ToolError ''Missing one or more booking parameters.''), w)
      else case py_le_zero people of
        Inl e \<Rightarrow> (Inl e, w)
      | Inr True \<Rightarrow> (Inl (ToolError ''PartySize must be a positive integer.''), w)
      | Inr False \<Rightarrow>
      (case validate_date env date of
        Some e \<Rightarrow> (Inl e, w)
      | None \<Rightarrow>
      (case normalize_time time of
        Inl e \<Rightarrow> (Inl e, w)
      | Inr time' \<Rightarrow>
      (case validate_time env time' of
        Some e \<Rightarrow> (Inl e, w)
      | None \<Rightarrow>
      (let payload = [(''VisitDate'', date), (''VisitTime'', time'),
                      (''PartySize'', PStr (py_str people)), (''ChannelCode'', channel_code)];
           payload = (if truthy special_requests
                      then dict_set ''SpecialRequests'' special_requests payload else payload);
           payload = (if is_leave_time_confirmed \<noteq> PNone
                      then dict_set ''IsLeaveTimeConfirmed''
                             (PStr (bool_to_str is_leave_time_confirmed)) payload
                      else payload);
           payload = (if truthy room_number
                      then dict_set ''RoomNumber'' room_number payload else payload)
       in case customer_fields customer payload of
            Inl e \<Rightarrow> (Inl e, w)
          | Inr payload \<Rightarrow>
          (case call_api env ''BookingWithStripeToken'' payload w of
             (Inl e, w') \<Rightarrow> (Inl e, w')
           | (Inr response, w') \<Rightarrow>
             (case py_get response ''booking_reference'' PNone of
                Inl e \<Rightarrow> (Inl e, w')
              | Inr booking_ref \<Rightarrow>
                  if truthy booking_ref
                  then (Inr (PStr (''Reservation confirmed! Your reference is ''
                                   @ py_str booking_ref @ ''.'')), w')
                  else (Inl (ToolError ''Failed to book reservation.''), w'))))))))"

definition check_reservation :: "env \<Rightarrow> pyval \<Rightarrow> world \<Rightarrow> pyval result" where
  "check_reservation env booking_reference w =
     (if \<not> truthy booking_reference
        then (Inl (ToolError ''Booking reference is required.''), w)
      else call_api_get env ''Booking'' [(''booking_reference'', booking_reference)]
             ''check_reservation'' w)"

text \<open>\<open>isinstance(v, bool)\<close>.\<close>

fun is_bool :: "pyval \<Rightarrow> bool" where
  "is_bool (PBool b) = True"
| "is_bool v = False"

definition modify_reservation ::
  "env \<Rightarrow> pyval \<Rightarrow> pyval \<Rightarrow> pyval \<Rightarrow> pyval \<Rightarrow> pyval \<Rightarrow> pyval \<Rightarrow> world \<Rightarrow> pyval result" where
  "modify_reservation env booking_reference VisitDate VisitTime PartySize SpecialRequests
       IsLeaveTimeConfirmed w =
     (if \<not> truthy booking_reference
        then (Inl (ToolError ''Booking reference is required to modify a reservation.''), w)
      else
      (let payload = [(''booking_reference'', booking_reference)] in
       case (if truthy VisitDate
             then (case validate_date env VisitDate of
                     Some e \<Rightarrow> Inl e
                   | None \<Rightarrow> Inr (dict_set ''VisitDate'' VisitDate payload))
             else Inr payload) of
         Inl e \<Rightarrow> (Inl e, w)
       | Inr payload \<Rightarrow>
       (case (if truthy VisitTime
              then (case normalize_time VisitTime of
                      Inl e \<Rightarrow> Inl e
                    | Inr VisitTime' \<Rightarrow>
                        (case validate_time env VisitTime' of
                           Some e \<Rightarrow> Inl e
                         | None \<Rightarrow> Inr (dict_set ''VisitTime'' VisitTime' payload)))
              else Inr payload) of
         Inl e \<Rightarrow> (Inl e, w)
       | Inr payload \<Rightarrow>
       (case (if PartySize \<noteq> PNone
              then (if is_bool PartySize
                    then Inl (ToolError ''PartySize must be a positive integer.'')
                    else (case py_int PartySize of
                            Inl e \<Rightarrow> Inl e
                          | Inr n \<Rightarrow>
                              if n \<le> 0 then Inl (ToolError ''PartySize must be a positive integer.'')
                              else Inr (dict_set ''PartySize'' (PStr (show_int n)) payload)))
              else Inr payload) of
         Inl e \<Rightarrow> (Inl e, w)
       | Inr payload \<Rightarrow>
       (let payload = (if truthy SpecialRequests
                       then dict_set ''SpecialRequests'' SpecialRequests payload else payload);
            payload = (if IsLeaveTimeConfirmed \<noteq> PNone
                       then dict_set ''IsLeaveTimeConfirmed''
                              (PStr (bool_to_str IsLeaveTimeConfirmed)) payload
                       else payload)
        in if length payload = 1
           then (Inl (ToolError ''No changes provided. Include at least one field to modify.''), w)
           else (case call_api_get env ''Booking'' payload ''modify_reservation'' w of
                   (Inl e, w') \<Rightarrow> (Inl e, w')
                 | (Inr response, w') \<Rightarrow> (Inr (PStr (py_str response)), w')))))))"

definition cancel_reservation :: "env \<Rightarrow> pyval \<Rightarrow> world \<Rightarrow> pyval result" where
  "cancel_reservation env booking_reference w =
     (if \<not> truthy booking_reference
        then (Inl (ToolError ''Booking reference is required for cancellation.''), w)
      else
        (let payload = [(''micrositeName'', PStr RESTAURANT_NAME),
                        (''booking_reference'', booking_reference),
                        (''bookingReference'', booking_reference),
                        (''cancellationReasonId'', PInt 1)]
         in case call_api_get env ''Booking'' payload [] w of
              (Inl e, w') \<Rightarrow> (Inl e, w')
            | (Inr response, w') \<Rightarrow> (Inr (PStr (py_str response)), w')))"

section \<open>The tool dispatcher (\<open>agent.py\<close>)\<close>

text \<open>
  \<open>tool_func(**args)\<close>: the value after \<open>**\<close> must be a mapping, every key must name a
  parameter and every parameter without a default must be given; otherwise the call
  raises \<open>TypeError\<close> before the body runs.
\<close>

fun enumerate_names :: "string list \<Rightarrow> string" where
  "enumerate_names [] = []"
| "enumerate_names [a] = quoted a"
| "enumerate_names [a, b] = quoted a @ '' and '' @ quoted b"
| "enumerate_names (a # b # c # cs) =
     join '', '' (map quoted (butlast (a # b # c # cs))) @ '', and '' @ quoted (last (c # cs))"

definition TOOLS_MODULE :: string where
  "TOOLS_MODULE = ''songbird.agent.tools''"

fun bind_kwargs ::
  "string \<Rightarrow> string list \<Rightarrow> string list \<Rightarrow> pyval \<Rightarrow> exn + (string \<times> pyval) list" where
  "bind_kwargs f required optional (PDict kvs) =
     (case filter (\<lambda>k. k \<notin> set (required @ optional)) (map fst kvs) of
        k # ks \<Rightarrow> Inl (TypeError (f @ ''() got an unexpected keyword argument '' @ quoted k))
      | [] \<Rightarrow>
          (case filter (\<lambda>k. k \<notin> fst ` set kvs) required of
             k # ks \<Rightarrow>
               Inl (TypeError (f @ ''() missing '' @ show_nat (length (k # ks))
                               @ '' required positional argument''
                               @ (if ks = [] then [] else ''s'') @ '': ''
                               @ enumerate_names (k # ks)))
           | [] \<Rightarrow> Inr kvs))"
| "bind_kwargs f required optional v =
     Inl (TypeError (TOOLS_MODULE @ ''.'' @ f @ ''() argument after ** must be a mapping, not ''
                     @ type_name v))"

text \<open>The value bound to a parameter: the keyword given, or the default.\<close>

definition kwarg :: "(string \<times> pyval) list \<Rightarrow> string \<Rightarrow> pyval \<Rightarrow> pyval" where
  "kwarg kw k d = (case map_of kw k of None \<Rightarrow> d | Some v \<Rightarrow> v)"

datatype tool =
    CheckAvailability
  | MakeReservation
  | CheckReservation
  | ModifyReservation
  | CancelReservation

definition tool_registry :: "(string \<times> tool) list" where
  "tool_registry =
     [(''check_availability'', CheckAvailability),
      (''make_reservation'', MakeReservation),
      (''check_reservation'', CheckReservation),
      (''modify_reservation'', ModifyReservation),
      (''cancel_reservation'', CancelReservation)]"

fun call_tool :: "env \<Rightarrow> tool \<Rightarrow> pyval \<Rightarrow> world \<Rightarrow> pyval result" where
  "call_tool env CheckAvailability args w =
     (case bind_kwargs ''check_availability'' [''date'', ''people''] [] args of
        Inl e \<Rightarrow> (Inl e, w)
      | Inr kw \<Rightarrow> check_availability env (kwarg kw ''date'' PNone) (kwarg kw ''people'' PNone) w)"
| "call_tool env MakeReservation args w =
     (case bind_kwargs ''make_reservation'' [''date'', ''time'', ''people'']
             [''channel_code'', ''special_requests'', ''is_leave_time_confirmed'',
              ''room_number'', ''customer''] args of
        Inl e \<Rightarrow> (Inl e, w)
      | Inr kw \<Rightarrow>
          make_reservation env (kwarg kw ''date'' PNone) (kwarg kw ''time'' PNone)
            (kwarg kw ''people'' PNone) (kwarg kw ''channel_code'' (PStr ''ONLINE''))
            (kwarg kw ''special_requests'' PNone) (kwarg kw ''is_leave_time_confirmed'' PNone)
            (kwarg kw ''room_number'' PNone) (kwarg kw ''customer'' PNone) w)"
| "call_tool env CheckReservation args w =
     (case bind_kwargs ''check_reservation'' [''booking_reference''] [] args of
        Inl e \<Rightarrow> (Inl e, w)
      | Inr kw \<Rightarrow> check_reservation env (kwarg kw ''booking_reference'' PNone) w)"
| "call_tool env ModifyReservation args w =
     (case bind_kwargs ''modify_reservation'' [''booking_reference'']
             [''VisitDate'', ''VisitTime'', ''PartySize'', ''SpecialRequests'',
              ''IsLeaveTimeConfirmed''] args of
        Inl e \<Rightarrow> (Inl e, w)
      | Inr kw \<Rightarrow>
          modify_reservation env (kwarg kw ''booking_reference'' PNone)
            (kwarg kw ''VisitDate'' PNone) (kwarg kw ''VisitTime'' PNone)
            (kwarg kw ''PartySize'' PNone) (kwarg kw ''SpecialRequests'' PNone)
            (kwarg kw ''IsLeaveTimeConfirmed'' PNone) w)"
| "call_tool env CancelReservation args w =
     (case bind_kwargs ''cancel_reservation'' [''booking_reference''] [] args of
        Inl e \<Rightarrow> (Inl e, w)
      | Inr kw \<Rightarrow> cancel_reservation env (kwarg kw ''booking_reference'' PNone) w)"

text \<open>
  Looking a value up as a dictionary key hashes it first: a list or a dictionary is
  unhashable and the lookup raises \<open>TypeError\<close>.
\<close>

fun unhashable :: "pyval \<Rightarrow> exn option" where
  "unhashable (PList xs) = Some (TypeError (''unhashable type: '' @ quoted ''list''))"
| "unhashable (PDict kvs) = Some (TypeError (''unhashable type: '' @ quoted ''dict''))"
| "unhashable v = None"

fun registry_get :: "pyval \<Rightarrow> exn + tool option" where
  "registry_get (PStr s) = Inr (map_of tool_registry s)"
| "registry_get v = (case unhashable v of Some e \<Rightarrow> Inl e | None \<Rightarrow> Inr None)"

definition execute_tool :: "env \<Rightarrow> pyval \<Rightarrow> world \<Rightarrow> pyval result" where
  "execute_tool env tool_call w =
     (case py_get tool_call ''name'' PNone of
        Inl e \<Rightarrow> (Inl e, w)
      | Inr tool_name \<Rightarrow>
      (case py_get tool_call ''args'' (PDict []) of
        Inl e \<Rightarrow> (Inl e, w)
      | Inr args \<Rightarrow>
      (case registry_get tool_name of
        Inl e \<Rightarrow> (Inl e, w)
      | Inr None \<Rightarrow> (Inr (PStr (''[Error] Unknown tool: `'' @ py_str tool_name @ ''`'')), w)
      | Inr (Some tool_func) \<Rightarrow>
          (case call_tool env tool_func args w of
             (Inr result, w') \<Rightarrow> (Inr result, w')
           | (Inl e, w') \<Rightarrow>
               if is_ToolError e then (Inr (PStr (''[Tool Error] '' @ exn_message e)), w')
               else (Inr (PStr (''[Execution Error] Something went wrong while using `''
                                @ py_str tool_name @ ''`: '' @ exn_message e)), w')))))"

section \<open>The two-stage pipeline (\<open>llm.py\<close>)\<close>

text \<open>\<open>SCHEMAS\<close>: the required and the optional keys of every tool.\<close>

definition SCHEMAS :: "(string \<times> string list \<times> string list) list" where
  "SCHEMAS =
     [(''check_availability'', [''date'', ''people''], []),
      (''make_reservation'', [''date'', ''time'', ''people''],
         [''SpecialRequests'', ''IsLeaveTimeConfirmed'', ''RoomNumber'', ''Customer[Title]'',
          ''Customer[FirstName]'', ''Customer[Surname]'', ''Customer[Email]'',
          ''Customer[Mobile]'', ''Customer[Phone]'', ''Customer[MobileCountryCode]'',
          ''Customer[PhoneCountryCode]'', ''Customer[ReceiveEmailMarketing]'',
          ''Customer[ReceiveSmsMarketing]'']),
      (''check_reservation'', [''booking_reference''], []),
      (''modify_reservation'', [''booking_reference''],
         [''VisitDate'', ''VisitTime'', ''PartySize'', ''SpecialRequests'',
          ''IsLeaveTimeConfirmed'']),
      (''cancel_reservation'', [''booking_reference''], [])]"

text \<open>\<open>name in SCHEMAS\<close> and \<open>SCHEMAS[name]["required"]\<close>.\<close>

fun in_schemas :: "pyval \<Rightarrow> exn + bool" where
  "in_schemas (PStr s) = Inr (s \<in> fst ` set SCHEMAS)"
| "in_schemas v = (case unhashable v of Some e \<Rightarrow> Inl e | None \<Rightarrow> Inr False)"

fun schema_required :: "pyval \<Rightarrow> string list" where
  "schema_required (PStr s) = (case map_of SCHEMAS s of None \<Rightarrow> [] | Some (req, opt) \<Rightarrow> req)"
| "schema_required v = []"

text \<open>
  \<open>_call_openrouter\<close>: one request to the language model.  Every failure of the request
  is caught inside and gives \<open>None\<close>.  The prompt does not appear: the answer is whatever
  the service sends back.
\<close>

definition call_openrouter :: "env \<Rightarrow> world \<Rightarrow> string option \<times> world" where
  "call_openrouter env w = (llm env (llm_calls w), w\<lparr>llm_calls := Suc (llm_calls w)\<rparr>)"

definition present :: "pyval \<Rightarrow> bool" where
  "present v = (v \<noteq> PNone \<and> py_strip (py_str v) \<noteq> [])"

text \<open>\<open>_safe_json_load\<close>: \<open>None\<close> for no text and for text that does not parse.\<close>

definition safe_json_load :: "env \<Rightarrow> string option \<Rightarrow> pyval" where
  "safe_json_load env text =
     (case text of
        None \<Rightarrow> PNone
      | Some t \<Rightarrow>
          if t = [] then PNone
          else
            (let s = py_strip t;
                 s = (if startswith s ''```''
                      then (let s = strip_chars ''`'' s
                            in if startswith (py_lower s) ''json'' then py_strip (drop 4 s) else s)
                      else s)
             in case json_loads env s of None \<Rightarrow> PNone | Some v \<Rightarrow> v))"

text \<open>
  \<open>_validate_receptionist_json\<close>.  The two subscripts are behind the test on the key
  set, so the keys are there.
\<close>

definition validate_receptionist_json :: "pyval \<Rightarrow> bool" where
  "validate_receptionist_json obj =
     (case obj of
        PDict kvs \<Rightarrow>
          if fst ` set kvs \<noteq> {''channel'', ''message''} then False
          else if map_of kvs ''channel'' \<notin> {Some (PStr ''to_user''), Some (PStr ''to_data_entry'')}
            then False
          else if \<not> (case map_of kvs ''message'' of Some (PStr m) \<Rightarrow> True | _ \<Rightarrow> False)
            then False
          else True
      | _ \<Rightarrow> False)"

definition receptionist_fallback :: pyval where
  "receptionist_fallback =
     PDict [(''channel'', PStr ''to_user''),
            (''message'',
             PStr ''Could you confirm the date and time (and number of people if booking)?'')]"

text \<open>\<open>_receptionist\<close>: the loop \<open>for _ in range(2)\<close>, then the fallback.\<close>

fun receptionist_attempts :: "env \<Rightarrow> nat \<Rightarrow> world \<Rightarrow> pyval \<times> world" where
  "receptionist_attempts env 0 w = (receptionist_fallback, w)"
| "receptionist_attempts env (Suc n) w =
     (case call_openrouter env w of
        (raw, w') \<Rightarrow>
          (let obj = safe_json_load env raw
           in if validate_receptionist_json obj then (obj, w')
              else receptionist_attempts env n w'))"

definition receptionist :: "env \<Rightarrow> pyval list \<Rightarrow> world \<Rightarrow> pyval \<times> world" where
  "receptionist env history w = receptionist_attempts env 2 w"

text \<open>
  \<open>_extract_tool_call\<close>.  \<open>tool_call_of\<close> is the test both attempts make on the parsed
  data: a dictionary whose \<open>tool_call\<close> is a dictionary.
\<close>

definition tool_call_of :: "pyval option \<Rightarrow> pyval option" where
  "tool_call_of parsed =
     (case parsed of
        Some (PDict kvs) \<Rightarrow>
          (case map_of kvs ''tool_call'' of Some (PDict tc) \<Rightarrow> Some (PDict tc) | _ \<Rightarrow> None)
      | _ \<Rightarrow> None)"

definition extract_tool_call :: "env \<Rightarrow> string option \<Rightarrow> pyval" where
  "extract_tool_call env text =
     (case text of
        None \<Rightarrow> PNone
      | Some t \<Rightarrow>
          if t = [] then PNone
          else
            (case tool_call_of (json_loads env t) of
               Some tc \<Rightarrow> tc
             | None \<Rightarrow>
                 (let lb = py_find CHR ''{'' t; rb = py_rfind CHR ''}'' t
                  in if lb \<noteq> -1 \<and> rb \<noteq> -1 \<and> rb > lb
                     then (case tool_call_of (json_loads env (slice lb (rb + 1) t)) of
                             Some tc \<Rightarrow> tc
                           | None \<Rightarrow> PNone)
                     else PNone)))"

text \<open>
  The coercion of \<open>_data_entry_worker\<close> on a tool call it has extracted.  The membership
  test is outside the \<open>try\<close>; the subscript, \<open>int\<close> and the assignment are inside it.
\<close>

definition coerce_people :: "pyval \<Rightarrow> exn + pyval" where
  "coerce_people tool_call =
     (case py_get tool_call ''args'' (PDict []) of
        Inl e \<Rightarrow> Inl e
      | Inr args \<Rightarrow>
      (case py_in ''people'' args of
        Inl e \<Rightarrow> Inl e
      | Inr False \<Rightarrow> Inr tool_call
      | Inr True \<Rightarrow>
          (case (tool_call, args) of
             (PDict tc, PDict a) \<Rightarrow>
               (case py_index args ''people'' of
                  Inl e \<Rightarrow> Inr tool_call
                | Inr v \<Rightarrow>
                    (case py_int v of
                       Inl e \<Rightarrow> Inr tool_call
                     | Inr n \<Rightarrow> Inr (PDict (dict_set ''args'' (PDict (dict_set ''people'' (PInt n) a)) tc))))
           | _ \<Rightarrow> Inr tool_call)))"

fun worker_attempts :: "env \<Rightarrow> nat \<Rightarrow> world \<Rightarrow> pyval result" where
  "worker_attempts env 0 w = (Inr PNone, w)"
| "worker_attempts env (Suc n) w =
     (case call_openrouter env w of
        (raw, w') \<Rightarrow>
          (let tool_call = extract_tool_call env raw
           in if truthy tool_call then (coerce_people tool_call, w')
              else worker_attempts env n w'))"

definition data_entry_worker :: "env \<Rightarrow> string \<Rightarrow> pyval list \<Rightarrow> world \<Rightarrow> pyval result" where
  "data_entry_worker env receptionist_speech history w = worker_attempts env 2 w"

text \<open>\<open>all(self._present(args.get(k)) for k in required)\<close>, stopping at the first failure.\<close>

fun all_present :: "pyval \<Rightarrow> string list \<Rightarrow> exn + bool" where
  "all_present args [] = Inr True"
| "all_present args (k # ks) =
     (case py_get args k PNone of
        Inl e \<Rightarrow> Inl e
      | Inr v \<Rightarrow> if present v then all_present args ks else Inr False)"

text \<open>
  \<open>_validate_tool_call\<close>: the verdict, and the tool call as the function leaves it (the
  coerced \<open>people\<close> is written back).  Every exception inside is caught and gives \<open>False\<close>.
\<close>

definition validate_tool_call :: "pyval \<Rightarrow> bool \<times> pyval" where
  "validate_tool_call tool_call =
     (case py_get tool_call ''name'' PNone of
        Inl e \<Rightarrow> (False, tool_call)
      | Inr name \<Rightarrow>
      (case py_get tool_call ''args'' (PDict []) of
        Inl e \<Rightarrow> (False, tool_call)
      | Inr args0 \<Rightarrow>
      (let args = py_or args0 (PDict []) in
       case in_schemas name of
        Inl e \<Rightarrow> (False, tool_call)
      | Inr False \<Rightarrow> (False, tool_call)
      | Inr True \<Rightarrow>
      (case all_present args (schema_required name) of
        Inl e \<Rightarrow> (False, tool_call)
      | Inr False \<Rightarrow> (False, tool_call)
      | Inr True \<Rightarrow>
      (case py_in ''people'' args of
        Inl e \<Rightarrow> (False, tool_call)
      | Inr False \<Rightarrow> (True, tool_call)
      | Inr True \<Rightarrow>
          (case (tool_call, args) of
             (PDict tc, PDict a) \<Rightarrow>
               (case py_index args ''people'' of
                  Inl e \<Rightarrow> (False, tool_call)
                | Inr v \<Rightarrow>
                    (case py_int v of
                       Inl e \<Rightarrow> (False, tool_call)
                     | Inr n \<Rightarrow>
                         (True, PDict (dict_set ''args'' (PDict (dict_set ''people'' (PInt n) a)) tc))))
           | _ \<Rightarrow> (False, tool_call)))))))"

text \<open>The list comprehension of \<open>_missing_from_tool_call\<close>: every key is looked up.\<close>

fun missing_required :: "pyval \<Rightarrow> string list \<Rightarrow> exn + string list" where
  "missing_required args [] = Inr []"
| "missing_required args (k # ks) =
     (case py_get args k PNone of
        Inl e \<Rightarrow> Inl e
      | Inr v \<Rightarrow>
          (case missing_required args ks of
             Inl e \<Rightarrow> Inl e
           | Inr ms \<Rightarrow> Inr (if present v then ms else k # ms)))"

definition missing_from_tool_call :: "pyval \<Rightarrow> exn + string list" where
  "missing_from_tool_call tool_call =
     (if \<not> truthy tool_call then Inr []
      else
      (case py_get tool_call ''name'' PNone of
        Inl e \<Rightarrow> Inl e
      | Inr name \<Rightarrow>
      (case py_get tool_call ''args'' (PDict []) of
        Inl e \<Rightarrow> Inl e
      | Inr args0 \<Rightarrow>
      (let args = py_or args0 (PDict []) in
       case in_schemas name of
        Inl e \<Rightarrow> Inl e
      | Inr False \<Rightarrow> Inr []
      | Inr True \<Rightarrow>
      (case missing_required args (schema_required name) of
        Inl e \<Rightarrow> Inl e
      | Inr missing \<Rightarrow>
          if name = PStr ''modify_reservation'' then
            (case py_get args ''new_date'' PNone of
               Inl e \<Rightarrow> Inl e
             | Inr new_date \<Rightarrow>
                 if present new_date then Inr missing
                 else (case py_get args ''new_time'' PNone of
                         Inl e \<Rightarrow> Inl e
                       | Inr new_time \<Rightarrow>
                           if present new_time then Inr missing
                           else Inr (missing @ [''new_date_or_new_time''])))
          else Inr missing)))))"

definition em_dash :: string where
  "em_dash = [CHR 0xE2, CHR 0x80, CHR 0x94]"

definition right_quote :: string where
  "right_quote = [CHR 0xE2, CHR 0x80, CHR 0x99]"

definition modify_question :: string where
  "modify_question =
     ''Would you like to change the date, the time, or both for your reservation? Please provide the new values.''"

definition compose_missing_question :: "string list \<Rightarrow> string" where
  "compose_missing_question missing =
     (if missing = []
        then ''I need a bit more detail to proceed'' @ em_dash @ ''could you confirm the date and time?''
      else if ''new_date_or_new_time'' \<in> set missing then modify_question
      else if length missing = 1
        then ''Got it, could you please share the '' @ replace_char CHR ''_'' CHR '' '' (hd missing) @ ''?''
      else ''Thanks! I still need: ''
             @ join '', '' (map (replace_char CHR ''_'' CHR '' '') (take 2 missing)) @ ''.'')"

text \<open>
  \<open>process\<close>: a string for the user, or \<open>{"tool_call": ...}\<close> for the dispatcher.
\<close>

definition process :: "env \<Rightarrow> pyval list \<Rightarrow> world \<Rightarrow> pyval result" where
  "process env history w =
     (case receptionist env history w of
        (rec_obj, w1) \<Rightarrow>
      if \<not> truthy rec_obj
        then (Inr (PStr (''I'' @ right_quote @ ''m having trouble understanding,could you confirm the date, time, and (if booking) the number of people?'')), w1)
      else
      (case py_get rec_obj ''channel'' (PStr ''to_user'') of
        Inl e \<Rightarrow> (Inl e, w1)
      | Inr channel \<Rightarrow>
      (case py_get rec_obj ''message'' (PStr []) of
        Inl e \<Rightarrow> (Inl e, w1)
      | Inr (PStr m) \<Rightarrow>
      (let msg = py_strip m in
       if channel = PStr ''to_user'' \<or> msg = []
         then (Inr (PStr (if msg \<noteq> [] then msg
                          else ''Could you share a bit more detail so I can help?'')), w1)
       else if channel = PStr ''to_data_entry'' then
         (case data_entry_worker env msg history w1 of
            (Inl e, w2) \<Rightarrow> (Inl e, w2)
          | (Inr tool_call, w2) \<Rightarrow>
              (case (if truthy tool_call then validate_tool_call tool_call else (False, tool_call)) of
                 (True, tool_call') \<Rightarrow> (Inr (PDict [(''tool_call'', tool_call')]), w2)
               | (False, tool_call') \<Rightarrow>
                   (case (if truthy tool_call' then missing_from_tool_call tool_call' else Inr []) of
                      Inl e \<Rightarrow> (Inl e, w2)
                    | Inr missing \<Rightarrow>
                        if missing \<noteq> [] then (Inr (PStr (compose_missing_question missing)), w2)
                        else (Inr (PStr ''Sorry, I encountered some technical errors, can you resate your request?''), w2))))
       else (Inr (PStr (if msg \<noteq> [] then msg else ''Could you clarify your request?'')), w1))
      | Inr v \<Rightarrow> (Inl (no_attribute v ''strip''), w1))))"

section \<open>Memory (\<open>memory.py\<close>)\<close>

text \<open>
  A \<open>Memory\<close> holds the turns of the running session and the path of the user's summary
  log.  The file system maps a path to the text of the file.
\<close>

record memory =
  user_id :: string
  history :: "pyval list"
  summary_file :: string

type_synonym filesystem = "string \<rightharpoonup> string"

definition DATA_DIR :: string where
  "DATA_DIR = ''data''"

text \<open>\<open>os.path.join(a, b)\<close>: a second part that starts at the root stands alone.\<close>

definition path_join :: "string \<Rightarrow> string \<Rightarrow> string" where
  "path_join a b = (if startswith b ''/'' then b else a @ ''/'' @ b)"

definition new_memory :: "string \<Rightarrow> memory" where
  "new_memory uid =
     \<lparr>user_id = uid, history = [],
      summary_file = path_join DATA_DIR (uid @ ''_memory.jsonl'')\<rparr>"

definition turn :: "string \<Rightarrow> pyval \<Rightarrow> pyval" where
  "turn role msg = PDict [(''role'', PStr role), (''content'', msg)]"

definition add_user_message :: "pyval \<Rightarrow> memory \<Rightarrow> memory" where
  "add_user_message msg m = m\<lparr>history := history m @ [turn ''user'' msg]\<rparr>"

definition add_bot_message :: "pyval \<Rightarrow> memory \<Rightarrow> memory" where
  "add_bot_message msg m = m\<lparr>history := history m @ [turn ''assistant'' msg]\<rparr>"

definition add_tool_result :: "pyval \<Rightarrow> memory \<Rightarrow> memory" where
  "add_tool_result msg m = m\<lparr>history := history m @ [turn ''tool'' msg]\<rparr>"

definition clear :: "memory \<Rightarrow> memory" where
  "clear m = m\<lparr>history := []\<rparr>"

text \<open>
  \<open>store_summary\<close>: one line is appended to the log, which is created when it is not
  there.  \<open>now\<close> is the text of \<open>datetime.utcnow().isoformat()\<close>.
\<close>

definition summary_record :: "string \<Rightarrow> string \<Rightarrow> memory \<Rightarrow> pyval" where
  "summary_record now summary m =
     PDict [(''timestamp'', PStr now), (''summary'', PStr summary), (''messages'', PList (history m))]"

definition store_summary :: "env \<Rightarrow> string \<Rightarrow> string \<Rightarrow> memory \<Rightarrow> filesystem \<Rightarrow> filesystem" where
  "store_summary env now summary m fs =
     (let record = summary_record now summary m;
          old = (case fs (summary_file m) of None \<Rightarrow> [] | Some text \<Rightarrow> text)
      in fs(summary_file m \<mapsto> old @ json_dumps env record @ [CHR 10]))"

text \<open>
  Reading a file opened in text mode turns \<open>\r\n\<close> and a lone \<open>\r\<close> into \<open>\n\<close>;
  \<open>readlines\<close> cuts the text after every \<open>\n\<close>.
\<close>

fun universal_newlines :: "string \<Rightarrow> string" where
  "universal_newlines [] = []"
| "universal_newlines [c] = (if c = CHR 13 then [CHR 10] else [c])"
| "universal_newlines (c # d # cs) =
     (if c = CHR 13 then
        (if d = CHR 10 then CHR 10 # universal_newlines cs
         else CHR 10 # universal_newlines (d # cs))
      else c # universal_newlines (d # cs))"

fun readlines :: "string \<Rightarrow> string list" where
  "readlines [] = []"
| "readlines (c # cs) =
     (if c = CHR 10 then [c] # readlines cs
      else (case readlines cs of [] \<Rightarrow> [[c]] | l # ls \<Rightarrow> (c # l) # ls))"

text \<open>\<open>get_last_summary\<close>: every exception while reading or parsing gives \<open>None\<close>.\<close>

definition get_last_summary :: "env \<Rightarrow> memory \<Rightarrow> filesystem \<Rightarrow> pyval" where
  "get_last_summary env m fs =
     (case fs (summary_file m) of
        None \<Rightarrow> PNone
      | Some text \<Rightarrow>
          (let lines = readlines (universal_newlines text)
           in if lines = [] then PNone
              else (case json_loads env (last lines) of
                      None \<Rightarrow> PNone
                    | Some last_record \<Rightarrow>
                        (case py_get last_record ''summary'' PNone of
                           Inl e \<Rightarrow> PNone
                         | Inr v \<Rightarrow> v))))"

section \<open>The conversation controller (\<open>agent.py\<close>)\<close>

text \<open>
  The agent's state: the \<open>MemoryManager\<close>'s table of memories and what has been done to
  the outside world.  A memory is an object shared with the table, so every change to it
  is written to the table at once and survives an exception.
\<close>

record agent =
  user_memories :: "string \<rightharpoonup> memory"
  outside :: world

definition get_memory :: "string \<Rightarrow> agent \<Rightarrow> memory \<times> agent" where
  "get_memory uid st =
     (case user_memories st uid of
        Some m \<Rightarrow> (m, st)
      | None \<Rightarrow> (new_memory uid, st\<lparr>user_memories := (user_memories st)(uid \<mapsto> new_memory uid)\<rparr>))"

definition the_memory :: "string \<Rightarrow> agent \<Rightarrow> memory" where
  "the_memory uid st = fst (get_memory uid st)"

definition update_memory :: "string \<Rightarrow> (memory \<Rightarrow> memory) \<Rightarrow> agent \<Rightarrow> agent" where
  "update_memory uid f st =
     st\<lparr>user_memories := (user_memories st)(uid \<mapsto> f (the_memory uid st))\<rparr>"

text \<open>The test of the loop: \<open>isinstance(llm_reply, dict) and "tool_call" in llm_reply\<close>.\<close>

fun is_tool_reply :: "pyval \<Rightarrow> bool" where
  "is_tool_reply (PDict kvs) = (''tool_call'' \<in> fst ` set kvs)"
| "is_tool_reply v = False"

definition apology :: string where
  "apology = ''Sorry, I have encountered an error, please can you repeat your request''"

text \<open>
  The \<open>while\<close> loop of \<open>handle_user_input\<close>, from the counter \<open>i\<close> and the reply it starts
  with to the counter and the reply it ends with.
\<close>

function tool_loop ::
  "env \<Rightarrow> string \<Rightarrow> nat \<Rightarrow> pyval \<Rightarrow> agent \<Rightarrow> (exn + nat \<times> pyval) \<times> agent" where
  "tool_loop env uid i llm_reply st =
     (if is_tool_reply llm_reply \<and> i < 4 then
        (case py_index llm_reply ''tool_call'' of
           Inl e \<Rightarrow> (Inl e, st)
         | Inr tool_call \<Rightarrow>
             (case execute_tool env tool_call (outside st) of
                (Inl e, w1) \<Rightarrow> (Inl e, st\<lparr>outside := w1\<rparr>)
              | (Inr tool_result, w1) \<Rightarrow>
                  (let st1 = update_memory uid (add_tool_result tool_result) (st\<lparr>outside := w1\<rparr>)
                   in case process env (history (the_memory uid st1)) (outside st1) of
                        (Inl e, w2) \<Rightarrow> (Inl e, st1\<lparr>outside := w2\<rparr>)
                      | (Inr llm_reply', w2) \<Rightarrow>
                          tool_loop env uid (i + 1) llm_reply' (st1\<lparr>outside := w2\<rparr>))))
      else (Inr (i, llm_reply), st))"
  by pat_completeness auto
termination
  by (relation "measure (\<lambda>(env, uid, i, llm_reply, st). 4 - i)") auto

definition handle_user_input :: "env \<Rightarrow> string \<Rightarrow> pyval \<Rightarrow> agent \<Rightarrow> (exn + pyval) \<times> agent" where
  "handle_user_input env uid user_input st =
     (let st0 = snd (get_memory uid st);
          st1 = update_memory uid (add_user_message user_input) st0
      in case process env (history (the_memory uid st1)) (outside st1) of
           (Inl e, w) \<Rightarrow> (Inl e, st1\<lparr>outside := w\<rparr>)
         | (Inr llm_reply, w) \<Rightarrow>
             (case tool_loop env uid 0 llm_reply (st1\<lparr>outside := w\<rparr>) of
                (Inl e, st2) \<Rightarrow> (Inl e, st2)
              | (Inr (i, llm_reply'), st2) \<Rightarrow>
                  (let reply = (if i > 3 then PStr apology else llm_reply')
                   in (Inr reply, update_memory uid (add_bot_message reply) st2))))"

text \<open>
  Every dispatch that returns appends one tool turn to the user's history
  (\<open>memory.add_tool_result\<close>), and nothing else appends one: the dispatches of a run are
  the tool turns it has added.
\<close>

definition is_tool_turn :: "pyval \<Rightarrow> bool" where
  "is_tool_turn t = (case t of PDict kvs \<Rightarrow> map_of kvs ''role'' = Some (PStr ''tool'') | _ \<Rightarrow> False)"

definition tool_turns :: "pyval list \<Rightarrow> nat" where
  "tool_turns h = length (filter is_tool_turn h)"

definition dispatches :: "string \<Rightarrow> agent \<Rightarrow> agent \<Rightarrow> nat" where
  "dispatches uid st st' =
     tool_turns (history (the_memory uid st')) - tool_turns (history (the_memory uid st))"

section \<open>Example inputs\<close>

text \<open>Concrete worlds and services on which the model is run.\<close>

definition world0 :: world where
  "world0 = \<lparr>llm_calls = 0, http_log = []\<rparr>"

text \<open>
  A booking API that answers every request with the JSON value \<open>v\<close>, and a \<open>strptime\<close>
  that accepts one date and one time.  The language model is not reachable.
\<close>

definition api_env :: "pyval \<Rightarrow> env" where
  "api_env v =
     \<lparr>llm = (\<lambda>n. None), json_loads = (\<lambda>s. None), json_dumps = (\<lambda>v. []),
      http = (\<lambda>n req. HttpJson v),
      strptime_ok = (\<lambda>fmt s. (fmt, s) \<in> {(''%Y-%m-%d'', ''2025-08-10''), (''%H:%M:%S'', ''19:00:00'')})\<rparr>"

text \<open>
  A scripted run: the language model gives the listed replies in order (and fails after
  the last), \<open>json.loads\<close> knows the listed texts, and the booking API answers every
  request with the JSON value \<open>api\<close>.
\<close>

definition script_env :: "string list \<Rightarrow> (string \<times> pyval) list \<Rightarrow> pyval \<Rightarrow> env" where
  "script_env replies parses api =
     \<lparr>llm = (\<lambda>n. if n < length replies then Some (replies ! n) else None),
      json_loads = map_of parses, json_dumps = (\<lambda>v. []),
      http = (\<lambda>n req. HttpJson api),
      strptime_ok = (\<lambda>fmt s. (fmt, s) \<in> {(''%Y-%m-%d'', ''2025-08-10''), (''%H:%M:%S'', ''19:00:00'')})\<rparr>"

text \<open>Replies of the language model, each with the value \<open>json.loads\<close> gives for it.\<close>

definition hand_off :: "string \<times> pyval" where
  \<open>hand_off =
     (''{"channel":"to_data_entry","message":"Please carry out the request."}'',
      PDict [(''channel'', PStr ''to_data_entry''),
             (''message'', PStr ''Please carry out the request.'')])\<close>

definition done_decision :: "string \<times> pyval" where
  \<open>done_decision =
     (''{"channel":"to_user","message":"All done."}'',
      PDict [(''channel'', PStr ''to_user''), (''message'', PStr ''All done.'')])\<close>

definition extra_key_decision :: "string \<times> pyval" where
  \<open>extra_key_decision =
     (''{"channel":"to_user","message":"Hello!","mood":"happy"}'',
      PDict [(''channel'', PStr ''to_user''), (''message'', PStr ''Hello!''),
             (''mood'', PStr ''happy'')])\<close>

definition modify_without_changes :: "string \<times> pyval" where
  \<open>modify_without_changes =
     (''{"tool_call":{"name":"modify_reservation","args":{"booking_reference":"ABC123"}}}'',
      PDict [(''tool_call'',
        PDict [(''name'', PStr ''modify_reservation''),
               (''args'', PDict [(''booking_reference'', PStr ''ABC123'')])])])\<close>

definition modify_without_arguments :: "string \<times> pyval" where
  \<open>modify_without_arguments =
     (''{"tool_call":{"name":"modify_reservation","args":{}}}'',
      PDict [(''tool_call'',
        PDict [(''name'', PStr ''modify_reservation''), (''args'', PDict [])])])\<close>

text \<open>A reservation whose date is a no-break space (U+00A0).\<close>

definition nbsp_date_call :: "string \<times> pyval" where
  \<open>nbsp_date_call =
     (''{"tool_call":{"name":"make_reservation","args":{"date":"'' @ [CHR 0xC2, CHR 0xA0]
        @ ''","time":"19:00"}}}'',
      PDict [(''tool_call'',
        PDict [(''name'', PStr ''make_reservation''),
               (''args'', PDict [(''date'', PStr [CHR 0xC2, CHR 0xA0]),
                                 (''time'', PStr ''19:00'')])])])\<close>

definition modify_with_new_date :: "string \<times> pyval" where
  \<open>modify_with_new_date =
     (''{"tool_call":{"name":"modify_reservation","args":{"VisitDate":"2025-08-10","new_date":"2025-08-10"}}}'',
      PDict [(''tool_call'',
        PDict [(''name'', PStr ''modify_reservation''),
               (''args'', PDict [(''VisitDate'', PStr ''2025-08-10''),
                                 (''new_date'', PStr ''2025-08-10'')])])])\<close>

definition list_name_call :: "string \<times> pyval" where
  \<open>list_name_call =
     (''{"tool_call":{"name":["cancel_reservation"],"args":{"booking_reference":"ABC123"}}}'',
      PDict [(''tool_call'',
        PDict [(''name'', PList [PStr ''cancel_reservation'']),
               (''args'', PDict [(''booking_reference'', PStr ''ABC123'')])])])\<close>

definition null_args_call :: "string \<times> pyval" where
  \<open>null_args_call =
     (''{"tool_call":{"name":"cancel_reservation","args":null}}'',
      PDict [(''tool_call'',
        PDict [(''name'', PStr ''cancel_reservation''), (''args'', PNone)])])\<close>

definition cancel_call :: "string \<times> pyval" where
  \<open>cancel_call =
     (''{"tool_call":{"name":"cancel_reservation","args":{"booking_reference":"ABC123"}}}'',
      PDict [(''tool_call'',
        PDict [(''name'', PStr ''cancel_reservation''),
               (''args'', PDict [(''booking_reference'', PStr ''ABC123'')])])])\<close>

definition reservation_call :: "string \<times> pyval" where
  \<open>reservation_call =
     (''{"tool_call":{"name":"make_reservation","args":{"date":"2025-08-10","time":"19:00","people":"4"}}}'',
      PDict [(''tool_call'',
        PDict [(''name'', PStr ''make_reservation''),
               (''args'', PDict [(''date'', PStr ''2025-08-10''), (''time'', PStr ''19:00''),
                                 (''people'', PStr ''4'')])])])\<close>

text \<open>The services of a run: the model's replies in order, each with its parse.\<close>

definition scripted :: "(string \<times> pyval) list \<Rightarrow> pyval \<Rightarrow> env" where
  "scripted replies api = script_env (map fst replies) replies api"

text \<open>
  An agent that has met nobody, a run in which the model asks for four cancellations and
  then says that all is done, and a run with one cancellation.
\<close>

definition agent0 :: agent where
  "agent0 = \<lparr>user_memories = Map.empty, outside = world0\<rparr>"

definition four_cancellations :: env where
  "four_cancellations =
     scripted [hand_off, cancel_call, hand_off, cancel_call, hand_off, cancel_call,
               hand_off, cancel_call, done_decision] (PDict [])"

definition one_cancellation :: env where
  "one_cancellation = scripted [hand_off, cancel_call, done_decision] (PDict [])"

text \<open>
  A summary record as \<open>json.dumps\<close> writes it, and a library that knows this one text.
\<close>

definition summary_line :: "string \<times> pyval" where
  \<open>summary_line =
     (''{"timestamp": "2025-08-10T19:00:00.000000", "summary": "Booked a table for 4.", "messages": []}'',
      PDict [(''timestamp'', PStr ''2025-08-10T19:00:00.000000''),
             (''summary'', PStr ''Booked a table for 4.''),
             (''messages'', PList [])])\<close>

definition summary_env :: env where
  "summary_env =
     \<lparr>llm = (\<lambda>n. None),
      json_loads = map_of [(fst summary_line @ [CHR 10], snd summary_line)],
      json_dumps = (\<lambda>v. if v = snd summary_line then fst summary_line else ''null''),
      http = (\<lambda>n req. HttpBadJson),
      strptime_ok = (\<lambda>fmt s. False)\<rparr>"

section \<open>Properties\<close>

subsection \<open>The booking tools\<close>

text \<open>
  C9.  \<open>check_reservation\<close> with a falsy booking reference raises the \<open>ToolError\<close> and
  leaves the world as it was, so no HTTP request has been made; with any other reference
  the one thing it does to the world is the \<open>GET\<close> request for that booking.
\<close>

theorem check_reservation_reference:
  "(\<not> truthy booking_reference \<longrightarrow>
      check_reservation env booking_reference w
        = (Inl (ToolError ''Booking reference is required.''), w))
   \<and> (truthy booking_reference \<longrightarrow>
      snd (check_reservation env booking_reference w)
        = w\<lparr>http_log := http_log w @
              [\<lparr>req_method = GET,
                req_url = BASE_URL @ RESTAURANT_NAME @ ''/Booking/'' @ py_str booking_reference,
                req_data = None\<rparr>]\<rparr>)"
  by (simp add: check_reservation_def call_api_get_def send_def Let_def split: prod.splits)

theorem check_reservation_reference_witness:
  "check_reservation (api_env (PDict [])) (PStr []) world0
     = (Inl (ToolError ''Booking reference is required.''), world0)
   \<and> http_log (snd (check_reservation (api_env (PDict [])) (PStr ''ABC123'') world0))
     = [\<lparr>req_method = GET,
         req_url = ''http://localhost:8547/api/ConsumerApi/v1/Restaurant/TheHungryUnicorn/Booking/ABC123'',
         req_data = None\<rparr>]"
  using check_reservation_reference [of "PStr []" "api_env (PDict [])" world0]
        check_reservation_reference [of "PStr ''ABC123''" "api_env (PDict [])" world0]
  by (simp add: world0_def BASE_URL_def RESTAURANT_NAME_def)

text \<open>
  C10 as stated fails: \<open>IsLeaveTimeConfirmed\<close> and \<open>PartySize\<close> are tested with
  \<open>is not None\<close>, so the falsy value \<open>False\<close> is a change.  With a reference and
  \<open>IsLeaveTimeConfirmed=False\<close> alone the function sends the \<open>PATCH\<close> request.
\<close>

theorem modify_reservation_falsy_flag_counterexample:
  "truthy (PStr ''ABC123'') \<and> \<not> truthy (PBool False)
   \<and> modify_reservation (api_env (PDict [])) (PStr ''ABC123'') PNone PNone PNone PNone
        (PBool False) world0
     = (Inr (PStr ''{}''),
        \<lparr>llm_calls = 0,
         http_log =
           [\<lparr>req_method = PATCH,
             req_url = ''http://localhost:8547/api/ConsumerApi/v1/Restaurant/TheHungryUnicorn/Booking/ABC123'',
             req_data = Some [(''IsLeaveTimeConfirmed'', PStr ''false'')]\<rparr>]\<rparr>)"
  by (simp add: modify_reservation_def call_api_get_def send_def api_env_def world0_def
        bool_to_str_def BASE_URL_def RESTAURANT_NAME_def)

text \<open>
  C10, amended.  With a truthy booking reference, \<open>VisitDate\<close>, \<open>VisitTime\<close> and
  \<open>SpecialRequests\<close> each absent, \<open>None\<close> or falsy, and \<open>PartySize\<close> and
  \<open>IsLeaveTimeConfirmed\<close> each absent or \<open>None\<close>, \<open>modify_reservation\<close> raises the
  \<open>ToolError\<close> that no changes were provided and leaves the world as it was: no HTTP
  request has been made.
\<close>

theorem modify_reservation_no_changes:
  assumes "truthy booking_reference"
    and "\<not> truthy VisitDate" and "\<not> truthy VisitTime" and "\<not> truthy SpecialRequests"
  shows "modify_reservation env booking_reference VisitDate VisitTime PNone SpecialRequests PNone w
           = (Inl (ToolError ''No changes provided. Include at least one field to modify.''), w)"
  using assms by (simp add: modify_reservation_def)

theorem modify_reservation_no_changes_witness:
  "modify_reservation (api_env (PDict [])) (PStr ''ABC123'') (PStr []) PNone PNone (PStr []) PNone world0
     = (Inl (ToolError ''No changes provided. Include at least one field to modify.''), world0)"
  using modify_reservation_no_changes
          [of "PStr ''ABC123''" "PStr []" PNone "PStr []" "api_env (PDict [])" world0]
  by simp

subsection \<open>The pipeline\<close>

lemma py_get_dict: "py_get (PDict a) k PNone = Inr (dict_get a k)"
  by (simp add: dict_get_def)

lemma all_present_dict:
  "all_present (PDict a) req = Inr (list_all (\<lambda>k. present (dict_get a k)) req)"
  by (induction req) (simp_all add: dict_get_def)

lemma missing_required_dict:
  "missing_required (PDict a) req = Inr (filter (\<lambda>k. \<not> present (dict_get a k)) req)"
  by (induction req) (simp_all add: dict_get_def)

lemma required_not_composite:
  "''new_date_or_new_time'' \<notin> set (schema_required name)"
  by (cases name) (auto simp: SCHEMAS_def)

text \<open>What \<open>_validate_receptionist_json\<close> accepts.\<close>

lemma validate_receptionist_json_iff:
  "validate_receptionist_json obj \<longleftrightarrow>
     (\<exists>kvs c m. obj = PDict kvs \<and> fst ` set kvs = {''channel'', ''message''}
        \<and> map_of kvs ''channel'' = Some (PStr c) \<and> (c = ''to_user'' \<or> c = ''to_data_entry'')
        \<and> map_of kvs ''message'' = Some (PStr m))"
  by (cases obj) (auto simp: validate_receptionist_json_def split: option.splits pyval.splits)

lemma receptionist_two_failures:
  assumes "\<not> validate_receptionist_json (safe_json_load env (llm env (llm_calls w)))"
    and "\<not> validate_receptionist_json (safe_json_load env (llm env (Suc (llm_calls w))))"
  shows "receptionist env hist w = (receptionist_fallback, w\<lparr>llm_calls := llm_calls w + 2\<rparr>)"
  using assms
  by (simp add: receptionist_def numeral_2_eq_2 call_openrouter_def)

lemma strip_fallback:
  "py_strip ''Could you confirm the date and time (and number of people if booking)?''
     = ''Could you confirm the date and time (and number of people if booking)?''"
  by code_simp

text \<open>
  C4.  When the reply of the language model fails \<open>_validate_receptionist_json\<close> on the
  first attempt and on the second (whatever the reason: no reply, text that does not
  parse, a value that is not a dictionary, a wrong key set, a wrong channel, a message
  that is not a string), the receptionist has asked the model exactly twice and returns
  the fixed question with channel \<open>to_user\<close>, and \<open>process\<close> returns that question as a
  string.
\<close>

theorem malformed_decision_falls_back:
  assumes "\<not> validate_receptionist_json (safe_json_load env (llm env (llm_calls w)))"
    and "\<not> validate_receptionist_json (safe_json_load env (llm env (Suc (llm_calls w))))"
  shows "receptionist env hist w
           = (PDict [(''channel'', PStr ''to_user''),
                     (''message'', PStr ''Could you confirm the date and time (and number of people if booking)?'')],
              w\<lparr>llm_calls := llm_calls w + 2\<rparr>)
       \<and> process env hist w
           = (Inr (PStr ''Could you confirm the date and time (and number of people if booking)?''),
              w\<lparr>llm_calls := llm_calls w + 2\<rparr>)"
proof -
  have r: "receptionist env hist w = (receptionist_fallback, w\<lparr>llm_calls := llm_calls w + 2\<rparr>)"
    using assms by (rule receptionist_two_failures)
  have p: "process env hist w
           = (Inr (PStr ''Could you confirm the date and time (and number of people if booking)?''),
              w\<lparr>llm_calls := llm_calls w + 2\<rparr>)"
    unfolding process_def r
    by (simp add: receptionist_fallback_def strip_fallback)
  from r p show ?thesis by (simp add: receptionist_fallback_def)
qed

theorem malformed_decision_falls_back_witness:
  "process (scripted [extra_key_decision, extra_key_decision] PNone) [] world0
     = (Inr (PStr ''Could you confirm the date and time (and number of people if booking)?''),
        \<lparr>llm_calls = 2, http_log = []\<rparr>)"
proof -
  let ?E = "scripted [extra_key_decision, extra_key_decision] PNone"
  have a: "\<not> validate_receptionist_json (safe_json_load ?E (llm ?E (llm_calls world0)))"
    by code_simp
  have b: "\<not> validate_receptionist_json (safe_json_load ?E (llm ?E (Suc (llm_calls world0))))"
    by code_simp
  from malformed_decision_falls_back [OF a b, of "[]"] show ?thesis
    by (simp add: world0_def)
qed

lemma validate_lacking:
  assumes "map_of tc ''name'' = Some (PStr name)"
    and "py_get (PDict tc) ''args'' (PDict []) = Inr args0"
    and "py_or args0 (PDict []) = PDict a"
    and "\<not> list_all (\<lambda>k. present (dict_get a k)) (schema_required (PStr name))"
  shows "validate_tool_call (PDict tc) = (False, PDict tc)"
proof -
  have n: "dict_get tc ''name'' = PStr name"
    using assms(1) by (simp add: dict_get_def)
  show ?thesis
    unfolding validate_tool_call_def
    by (simp add: n assms(2-4) all_present_dict py_get_dict Let_def
             del: py_get.simps in_schemas.simps schema_required.simps
             split: sum.splits bool.splits)
qed

lemma missing_lacking:
  assumes "map_of tc ''name'' = Some (PStr name)"
    and "name \<in> fst ` set SCHEMAS"
    and "py_get (PDict tc) ''args'' (PDict []) = Inr args0"
    and "py_or args0 (PDict []) = PDict a"
  shows "missing_from_tool_call (PDict tc)
         = Inr (filter (\<lambda>k. \<not> present (dict_get a k)) (schema_required (PStr name))
                @ (if name = ''modify_reservation'' \<and> \<not> present (dict_get a ''new_date'')
                      \<and> \<not> present (dict_get a ''new_time'')
                   then [''new_date_or_new_time''] else []))"
proof -
  have t: "truthy (PDict tc)" using assms(1) by auto
  have n: "dict_get tc ''name'' = PStr name"
    using assms(1) by (simp add: dict_get_def)
  have i: "in_schemas (PStr name) = Inr True"
    using assms(2) by simp
  show ?thesis
    unfolding missing_from_tool_call_def
    by (simp add: t n i assms(3,4) missing_required_dict py_get_dict Let_def
             del: py_get.simps in_schemas.simps schema_required.simps truthy.simps)
qed

lemma compose_plain:
  assumes "missing \<noteq> []" and "''new_date_or_new_time'' \<notin> set missing"
  shows "compose_missing_question missing
         = (if length missing = 1
            then ''Got it, could you please share the '' @ replace_char CHR ''_'' CHR '' '' (missing ! 0) @ ''?''
            else ''Thanks! I still need: '' @ replace_char CHR ''_'' CHR '' '' (missing ! 0) @ '', ''
                   @ replace_char CHR ''_'' CHR '' '' (missing ! 1) @ ''.'')"
proof (cases missing)
  case Nil
  with assms show ?thesis by simp
next
  case (Cons x xs)
  note c = this
  show ?thesis
  proof (cases xs)
    case Nil
    with c assms show ?thesis by (simp add: compose_missing_question_def)
  next
    case (Cons y ys)
    with c assms show ?thesis by (simp add: compose_missing_question_def)
  qed
qed

text \<open>
  C3 as stated fails for \<open>modify_reservation\<close>: a call with no arguments at all lacks the
  booking reference, and it carries no new date and no new time either.  The composite
  requirement is asked for first, so the question is the one about date and time, which
  does not name the required field that is missing.
\<close>

theorem missing_reference_not_named_counterexample:
  "process (scripted [hand_off, modify_without_arguments] PNone) [] world0
     = (Inr (PStr ''Would you like to change the date, the time, or both for your reservation? Please provide the new values.''),
        \<lparr>llm_calls = 2, http_log = []\<rparr>)
   \<and> \<not> contains_sub ''booking reference''
          ''Would you like to change the date, the time, or both for your reservation? Please provide the new values.''"
  by code_simp

text \<open>
  On a tool call whose arguments are a dictionary (or absent) the worker's coercion never
  raises.
\<close>

lemma coerce_people_returns:
  assumes "py_get (PDict tc) ''args'' (PDict []) = Inr (PDict a)"
  shows "\<exists>tc'. coerce_people (PDict tc) = Inr (PDict tc')"
  using assms
  by (auto simp: coerce_people_def split: sum.splits bool.splits option.splits)

text \<open>
  C3, amended.  The receptionist hands off (channel \<open>to_data_entry\<close>, a message that is
  not blank) and the data-entry worker returns a tool call whose name is in \<open>SCHEMAS\<close>
  and whose arguments are a dictionary (absent counts as the empty one) that lacks at
  least one required field: its value absent, \<open>None\<close> or white space only.  Then
  \<open>process\<close> returns a string, so nothing is dispatched.  For \<open>modify_reservation\<close> with no
  new date and no new time among the arguments (none of \<open>new_date\<close>, \<open>new_time\<close>,
  \<open>VisitDate\<close>, \<open>VisitTime\<close> present) the string is the question about date and time;
  otherwise it names the missing field when one is missing and the first two when more
  are, with underscores turned into spaces.  A \<open>modify_reservation\<close> call that carries a
  date or a time as \<open>VisitDate\<close> or \<open>VisitTime\<close> only is left out: the code looks for
  \<open>new_date\<close> and \<open>new_time\<close>, keys that \<open>SCHEMAS\<close> does not list.
\<close>

theorem missing_field_question:
  assumes rec: "receptionist env hist w = (PDict rec_obj, w1)"
    and channel: "map_of rec_obj ''channel'' = Some (PStr ''to_data_entry'')"
    and message: "map_of rec_obj ''message'' = Some (PStr m)" "py_strip m \<noteq> []"
    and worker: "data_entry_worker env (py_strip m) hist w1 = (Inr (PDict tc), w2)"
    and name: "map_of tc ''name'' = Some (PStr name)" "name \<in> fst ` set SCHEMAS"
    and args: "py_get (PDict tc) ''args'' (PDict []) = Inr (PDict a)"
    and dates: "name = ''modify_reservation''
                  \<and> (present (dict_get a ''VisitDate'') \<or> present (dict_get a ''VisitTime''))
                \<longrightarrow> present (dict_get a ''new_date'') \<or> present (dict_get a ''new_time'')"
    and missing: "missing = filter (\<lambda>k. \<not> present (dict_get a k)) (schema_required (PStr name))"
    and lacking: "missing \<noteq> []"
  shows "process env hist w
         = (Inr (PStr
              (if name = ''modify_reservation''
                    \<and> \<not> present (dict_get a ''new_date'') \<and> \<not> present (dict_get a ''new_time'')
                    \<and> \<not> present (dict_get a ''VisitDate'') \<and> \<not> present (dict_get a ''VisitTime'')
               then modify_question
               else if length missing = 1
               then ''Got it, could you please share the ''
                      @ replace_char CHR ''_'' CHR '' '' (missing ! 0) @ ''?''
               else ''Thanks! I still need: '' @ replace_char CHR ''_'' CHR '' '' (missing ! 0)
                      @ '', '' @ replace_char CHR ''_'' CHR '' '' (missing ! 1) @ ''.'')), w2)"
proof -
  have tc: "tc \<noteq> []" using name(1) by auto
  have ro: "rec_obj \<noteq> []" using channel by auto
  have por: "py_or (PDict a) (PDict []) = PDict a"
    by (simp add: py_or_def)
  have nall: "\<not> list_all (\<lambda>k. present (dict_get a k)) (schema_required (PStr name))"
    using lacking missing by (auto simp: list_all_iff filter_empty_conv)
  have v: "validate_tool_call (PDict tc) = (False, PDict tc)"
    using name(1) args por nall by (rule validate_lacking)
  have ms: "missing_from_tool_call (PDict tc)
         = Inr (missing
                @ (if name = ''modify_reservation'' \<and> \<not> present (dict_get a ''new_date'')
                      \<and> \<not> present (dict_get a ''new_time'')
                   then [''new_date_or_new_time''] else []))"
    unfolding missing using name args por by (rule missing_lacking)
  have nc: "''new_date_or_new_time'' \<notin> set missing"
    unfolding missing using required_not_composite [of "PStr name"] by auto
  have same: "(name = ''modify_reservation''
                    \<and> \<not> present (dict_get a ''new_date'') \<and> \<not> present (dict_get a ''new_time'')
                    \<and> \<not> present (dict_get a ''VisitDate'') \<and> \<not> present (dict_get a ''VisitTime''))
              \<longleftrightarrow> (name = ''modify_reservation'' \<and> \<not> present (dict_get a ''new_date'')
                      \<and> \<not> present (dict_get a ''new_time''))"
    using dates by blast
  show ?thesis
  proof (cases "name = ''modify_reservation'' \<and> \<not> present (dict_get a ''new_date'')
                      \<and> \<not> present (dict_get a ''new_time'')")
    case True
    then have q: "compose_missing_question (missing @ [''new_date_or_new_time'']) = modify_question"
      by (simp add: compose_missing_question_def)
    show ?thesis
      unfolding process_def rec same
      using True ro channel message worker tc v ms q
      by simp
  next
    case False
    then have ms': "missing_from_tool_call (PDict tc) = Inr missing"
      using ms by auto
    show ?thesis
      unfolding process_def rec same
      using False ro channel message worker tc v ms' lacking compose_plain [OF lacking nc]
      by auto
  qed
qed


theorem missing_field_question_witness:
  "process (scripted [hand_off, nbsp_date_call] PNone) [] world0
     = (Inr (PStr ''Thanks! I still need: date, people.''), \<lparr>llm_calls = 2, http_log = []\<rparr>)
   \<and> process (scripted [hand_off, modify_with_new_date] PNone) [] world0
     = (Inr (PStr ''Got it, could you please share the booking reference?''),
        \<lparr>llm_calls = 2, http_log = []\<rparr>)"
proof -
  let ?rec = "[(''channel'', PStr ''to_data_entry''),
               (''message'', PStr ''Please carry out the request.'')]"
  have channel: "map_of ?rec ''channel'' = Some (PStr ''to_data_entry'')"
    by simp
  have message: "map_of ?rec ''message'' = Some (PStr ''Please carry out the request.'')"
    by simp
  have nonblank: "py_strip ''Please carry out the request.'' \<noteq> []"
    by code_simp
  have first: "process (scripted [hand_off, nbsp_date_call] PNone) [] world0
     = (Inr (PStr ''Thanks! I still need: date, people.''), \<lparr>llm_calls = 2, http_log = []\<rparr>)"
  proof -
    let ?E = "scripted [hand_off, nbsp_date_call] PNone"
    let ?a = "[(''date'', PStr [CHR 0xC2, CHR 0xA0]), (''time'', PStr ''19:00'')]"
    let ?tc = "[(''name'', PStr ''make_reservation''), (''args'', PDict ?a)]"
    let ?missing = "filter (\<lambda>k. \<not> present (dict_get ?a k)) (schema_required (PStr ''make_reservation''))"
    have rec: "receptionist ?E [] world0 = (PDict ?rec, \<lparr>llm_calls = 1, http_log = []\<rparr>)"
      by code_simp
    have worker: "data_entry_worker ?E (py_strip ''Please carry out the request.'') []
                    \<lparr>llm_calls = 1, http_log = []\<rparr>
                  = (Inr (PDict ?tc), \<lparr>llm_calls = 2, http_log = []\<rparr>)"
      by code_simp
    have name: "map_of ?tc ''name'' = Some (PStr ''make_reservation'')"
      by simp
    have known: "''make_reservation'' \<in> fst ` set SCHEMAS"
      by (simp add: SCHEMAS_def)
    have args: "py_get (PDict ?tc) ''args'' (PDict []) = Inr (PDict ?a)"
      by simp
    have dates: "''make_reservation'' = ''modify_reservation''
                  \<and> (present (dict_get ?a ''VisitDate'') \<or> present (dict_get ?a ''VisitTime''))
                \<longrightarrow> present (dict_get ?a ''new_date'') \<or> present (dict_get ?a ''new_time'')"
      by simp
    have missing: "?missing = [''date'', ''people'']"
      by code_simp
    have lacking: "?missing \<noteq> []"
      unfolding missing by simp
    note q = missing_field_question
      [OF rec channel message nonblank worker name known args dates refl lacking, unfolded missing]
    from q show ?thesis
      by (simp add: replace_char_def)
  qed
  have second: "process (scripted [hand_off, modify_with_new_date] PNone) [] world0
     = (Inr (PStr ''Got it, could you please share the booking reference?''),
        \<lparr>llm_calls = 2, http_log = []\<rparr>)"
  proof -
    let ?E = "scripted [hand_off, modify_with_new_date] PNone"
    let ?a = "[(''VisitDate'', PStr ''2025-08-10''), (''new_date'', PStr ''2025-08-10'')]"
    let ?tc = "[(''name'', PStr ''modify_reservation''), (''args'', PDict ?a)]"
    let ?missing = "filter (\<lambda>k. \<not> present (dict_get ?a k)) (schema_required (PStr ''modify_reservation''))"
    have rec: "receptionist ?E [] world0 = (PDict ?rec, \<lparr>llm_calls = 1, http_log = []\<rparr>)"
      by code_simp
    have worker: "data_entry_worker ?E (py_strip ''Please carry out the request.'') []
                    \<lparr>llm_calls = 1, http_log = []\<rparr>
                  = (Inr (PDict ?tc), \<lparr>llm_calls = 2, http_log = []\<rparr>)"
      by code_simp
    have name: "map_of ?tc ''name'' = Some (PStr ''modify_reservation'')"
      by simp
    have known: "''modify_reservation'' \<in> fst ` set SCHEMAS"
      by (simp add: SCHEMAS_def)
    have args: "py_get (PDict ?tc) ''args'' (PDict []) = Inr (PDict ?a)"
      by simp
    have new_date: "present (dict_get ?a ''new_date'')"
      by code_simp
    have dates: "''modify_reservation'' = ''modify_reservation''
                  \<and> (present (dict_get ?a ''VisitDate'') \<or> present (dict_get ?a ''VisitTime''))
                \<longrightarrow> present (dict_get ?a ''new_date'') \<or> present (dict_get ?a ''new_time'')"
      using new_date by blast
    have missing: "?missing = [''booking_reference'']"
      by code_simp
    have lacking: "?missing \<noteq> []"
      unfolding missing by simp
    note q = missing_field_question
      [OF rec channel message nonblank worker name known args dates refl lacking, unfolded missing]
    from q new_date show ?thesis
      by (simp add: replace_char_def)
  qed
  from first second show ?thesis by simp
qed

text \<open>
  C2: the code dispatches where the claim says it must ask.  The receptionist hands off
  and the worker extracts a \<open>modify_reservation\<close> call with a booking reference and no
  new date or time.  \<open>_validate_tool_call\<close> tests the required keys only, so \<open>process\<close>
  returns the tool call for dispatch and the question about date and time is never
  composed.
\<close>

theorem modify_without_changes_is_dispatched:
  "process (scripted [hand_off, modify_without_changes] PNone) [] world0
     = (Inr (PDict [(''tool_call'',
               PDict [(''name'', PStr ''modify_reservation''),
                      (''args'', PDict [(''booking_reference'', PStr ''ABC123'')])])]),
        \<lparr>llm_calls = 2, http_log = []\<rparr>)"
  by code_simp

text \<open>
  C5: \<open>process\<close> raises where the claim says it never does.  A tool call whose name is a
  JSON list fails \<open>_validate_tool_call\<close>, which catches the \<open>TypeError\<close> of the lookup in
  \<open>SCHEMAS\<close>; \<open>_missing_from_tool_call\<close> then makes the same lookup outside any \<open>try\<close>.
  A tool call whose \<open>args\<close> is \<open>null\<close> raises in \<open>_data_entry_worker\<close>, where the test
  \<open>"people" in ...\<close> stands before the \<open>try\<close>.
\<close>

theorem process_raises_type_error:
  "process (scripted [hand_off, list_name_call] PNone) [] world0
     = (Inl (TypeError (''unhashable type: '' @ quoted ''list'')), \<lparr>llm_calls = 2, http_log = []\<rparr>)
   \<and> process (scripted [hand_off, null_args_call] PNone) [] world0
     = (Inl (TypeError (''argument of type '' @ quoted ''NoneType'' @ '' is not iterable'')),
        \<lparr>llm_calls = 2, http_log = []\<rparr>)"
  by code_simp

subsection \<open>The dispatcher\<close>

text \<open>
  The three error branches of \<open>execute_tool\<close>, and that a tool call with a hashable
  name never raises.
\<close>

lemma execute_tool_unknown:
  assumes "registry_get (dict_get tc ''name'') = Inr None"
  shows "execute_tool env (PDict tc) w
         = (Inr (PStr (''[Error] Unknown tool: `'' @ py_str (dict_get tc ''name'') @ ''`'')), w)"
  using assms by (simp add: execute_tool_def dict_get_def)

lemma execute_tool_tool_error:
  assumes "registry_get (dict_get tc ''name'') = Inr (Some tool_func)"
    and "py_get (PDict tc) ''args'' (PDict []) = Inr args"
    and "call_tool env tool_func args w = (Inl (ToolError m), w')"
  shows "execute_tool env (PDict tc) w = (Inr (PStr (''[Tool Error] '' @ m)), w')"
  using assms by (simp add: execute_tool_def dict_get_def)

lemma execute_tool_other_error:
  assumes "registry_get (dict_get tc ''name'') = Inr (Some tool_func)"
    and "py_get (PDict tc) ''args'' (PDict []) = Inr args"
    and "call_tool env tool_func args w = (Inl e, w')" and "\<not> is_ToolError e"
  shows "execute_tool env (PDict tc) w
         = (Inr (PStr (''[Execution Error] Something went wrong while using `''
                       @ py_str (dict_get tc ''name'') @ ''`: '' @ exn_message e)), w')"
  using assms by (simp add: execute_tool_def dict_get_def)

lemma execute_tool_hashable_name:
  assumes "unhashable (dict_get tc ''name'') = None"
  shows "\<exists>r w'. execute_tool env (PDict tc) w = (Inr r, w')"
proof -
  obtain t where t: "registry_get (dict_get tc ''name'') = Inr t"
    using assms by (cases "dict_get tc ''name''") auto
  show ?thesis
  proof (cases t)
    case None
    with t show ?thesis by (simp add: execute_tool_def dict_get_def)
  next
    case (Some f)
    obtain res w' where c: "call_tool env f (case map_of tc ''args'' of None \<Rightarrow> PDict [] | Some v \<Rightarrow> v) w = (res, w')"
      by (cases "call_tool env f (case map_of tc ''args'' of None \<Rightarrow> PDict [] | Some v \<Rightarrow> v) w") auto
    with t Some show ?thesis
      by (cases res) (simp_all add: execute_tool_def dict_get_def)
  qed
qed

text \<open>
  C6: \<open>execute_tool\<close> does not always return a string, and it can raise.
  \<open>check_reservation\<close> returns the parsed body of the booking API as it is (the other
  tools return \<open>str(response)\<close>), so a successful check gives a dictionary.  A tool call
  whose name is a list raises \<open>TypeError\<close> at \<open>self.tool_registry.get(tool_name)\<close>, which
  is outside the \<open>try\<close>.
\<close>

theorem execute_tool_not_a_string:
  "execute_tool (api_env (PDict [(''booking_reference'', PStr ''ABC123''), (''status'', PStr ''confirmed'')]))
      (PDict [(''name'', PStr ''check_reservation''),
              (''args'', PDict [(''booking_reference'', PStr ''ABC123'')])]) world0
     = (Inr (PDict [(''booking_reference'', PStr ''ABC123''), (''status'', PStr ''confirmed'')]),
        \<lparr>llm_calls = 0,
         http_log = [\<lparr>req_method = GET,
                      req_url = ''http://localhost:8547/api/ConsumerApi/v1/Restaurant/TheHungryUnicorn/Booking/ABC123'',
                      req_data = None\<rparr>]\<rparr>)
   \<and> execute_tool (api_env (PDict []))
      (PDict [(''name'', PList [PStr ''check_reservation'']),
              (''args'', PDict [(''booking_reference'', PStr ''ABC123'')])]) world0
     = (Inl (TypeError (''unhashable type: '' @ quoted ''list'')), world0)"
  by code_simp

lemma int_of_4: "int_of_string ''4'' = Some 4"
  by code_simp

lemma map_of_dict_set:
  "map_of (dict_set k v kvs) k' = (if k' = k then Some v else map_of kvs k')"
  by (induction kvs) auto

text \<open>
  C7.  When the worker extracts a tool call whose arguments hold \<open>people: "4"\<close>, the tool
  call it returns holds the integer \<open>4\<close> there.  When \<open>make_reservation\<close> is dispatched
  with a date and a time that \<open>strptime\<close> accepts and \<open>people: 4\<close>, and the booking API
  answers the request with a JSON object whose \<open>booking_reference\<close> is \<open>"ABC123"\<close>, the
  dispatcher returns exactly \<open>Reservation confirmed! Your reference is ABC123.\<close>
\<close>

theorem reservation_example:
  assumes extracted: "extract_tool_call env (llm env (llm_calls w0)) = PDict tc"
    and args: "map_of tc ''args'' = Some (PDict a)"
    and people: "map_of a ''people'' = Some (PStr ''4'')"
    and date: "date \<noteq> []" "strptime_ok env ''%Y-%m-%d'' date"
    and time: "time \<noteq> []" "normalize_time (PStr time) = Inr (PStr time')"
              "strptime_ok env ''%H:%M:%S'' time'"
    and api: "http env (length (http_log w))
                \<lparr>req_method = POST,
                 req_url = BASE_URL @ RESTAURANT_NAME @ ''/BookingWithStripeToken'',
                 req_data = Some [(''VisitDate'', PStr date), (''VisitTime'', PStr time'),
                                  (''PartySize'', PStr ''4''), (''ChannelCode'', PStr ''ONLINE'')]\<rparr>
              = HttpJson (PDict response)"
    and reference: "map_of response ''booking_reference'' = Some (PStr ''ABC123'')"
  shows "fst (data_entry_worker env speech hist w0)
           = Inr (PDict (dict_set ''args'' (PDict (dict_set ''people'' (PInt 4) a)) tc))
       \<and> dict_get (dict_set ''people'' (PInt 4) a) ''people'' = PInt 4
       \<and> fst (execute_tool env
                (PDict [(''name'', PStr ''make_reservation''),
                        (''args'', PDict [(''date'', PStr date), (''time'', PStr time),
                                          (''people'', PInt 4)])]) w)
           = Inr (PStr ''Reservation confirmed! Your reference is ABC123.'')"
proof -
  have tc: "tc \<noteq> []" using args by auto
  have inn: "''people'' \<in> fst ` set a"
    using people by (metis map_of_eq_None_iff option.distinct(1))
  have "coerce_people (PDict tc) = Inr (PDict (dict_set ''args'' (PDict (dict_set ''people'' (PInt 4) a)) tc))"
    using args people inn by (simp add: coerce_people_def int_of_4)
  then have 1: "fst (data_entry_worker env speech hist w0)
           = Inr (PDict (dict_set ''args'' (PDict (dict_set ''people'' (PInt 4) a)) tc))"
    using extracted tc
    by (simp add: data_entry_worker_def numeral_2_eq_2 call_openrouter_def)
  have 2: "dict_get (dict_set ''people'' (PInt 4) a) ''people'' = PInt 4"
    by (simp add: dict_get_def map_of_dict_set)
  have s4: "show_int 4 = ''4''" by code_simp
  have 3: "fst (execute_tool env
                (PDict [(''name'', PStr ''make_reservation''),
                        (''args'', PDict [(''date'', PStr date), (''time'', PStr time),
                                          (''people'', PInt 4)])]) w)
           = Inr (PStr ''Reservation confirmed! Your reference is ABC123.'')"
    using date time api reference
    by (simp add: execute_tool_def tool_registry_def kwarg_def make_reservation_def
          customer_fields_def call_api_def send_def s4 split: prod.splits)
  from 1 2 3 show ?thesis by simp
qed

theorem reservation_example_witness:
  "fst (data_entry_worker (scripted [reservation_call] (PDict [(''booking_reference'', PStr ''ABC123'')]))
          ''Please carry out the request.'' [] world0)
     = Inr (PDict [(''name'', PStr ''make_reservation''),
                   (''args'', PDict [(''date'', PStr ''2025-08-10''), (''time'', PStr ''19:00''),
                                     (''people'', PInt 4)])])
   \<and> fst (execute_tool (scripted [reservation_call] (PDict [(''booking_reference'', PStr ''ABC123'')]))
            (PDict [(''name'', PStr ''make_reservation''),
                    (''args'', PDict [(''date'', PStr ''2025-08-10''), (''time'', PStr ''19:00''),
                                      (''people'', PInt 4)])]) world0)
     = Inr (PStr ''Reservation confirmed! Your reference is ABC123.'')"
proof -
  let ?E = "scripted [reservation_call] (PDict [(''booking_reference'', PStr ''ABC123'')])"
  let ?a = "[(''date'', PStr ''2025-08-10''), (''time'', PStr ''19:00''), (''people'', PStr ''4'')]"
  let ?tc = "[(''name'', PStr ''make_reservation''), (''args'', PDict ?a)]"
  have extracted: "extract_tool_call ?E (llm ?E (llm_calls world0)) = PDict ?tc"
    by code_simp
  have args: "map_of ?tc ''args'' = Some (PDict ?a)"
    by simp
  have people: "map_of ?a ''people'' = Some (PStr ''4'')"
    by simp
  have date: "''2025-08-10'' \<noteq> []" "strptime_ok ?E ''%Y-%m-%d'' ''2025-08-10''"
    by (simp_all add: scripted_def script_env_def)
  have time: "''19:00'' \<noteq> []" "normalize_time (PStr ''19:00'') = Inr (PStr ''19:00:00'')"
    "strptime_ok ?E ''%H:%M:%S'' ''19:00:00''"
    by (simp_all add: scripted_def script_env_def)
  have api: "http ?E (length (http_log world0))
                \<lparr>req_method = POST,
                 req_url = BASE_URL @ RESTAURANT_NAME @ ''/BookingWithStripeToken'',
                 req_data = Some [(''VisitDate'', PStr ''2025-08-10''), (''VisitTime'', PStr ''19:00:00''),
                                  (''PartySize'', PStr ''4''), (''ChannelCode'', PStr ''ONLINE'')]\<rparr>
              = HttpJson (PDict [(''booking_reference'', PStr ''ABC123'')])"
    by (simp add: scripted_def script_env_def)
  have reference: "map_of [(''booking_reference'', PStr ''ABC123'')] ''booking_reference''
                   = Some (PStr ''ABC123'')"
    by simp
  from reservation_example [OF extracted args people date time api reference,
         of "''Please carry out the request.''" "[]"]
  show ?thesis by simp
qed

subsection \<open>The conversation controller\<close>

text \<open>
  What \<open>process\<close> returns without raising: a string, or a tool call whose name is a
  key of \<open>SCHEMAS\<close>.  The dispatcher never raises on such a tool call, so inside
  \<open>handle_user_input\<close> every dispatch returns and leaves its tool turn.
\<close>

lemma in_schemas_True:
  "in_schemas name = Inr True \<Longrightarrow> \<exists>s. name = PStr s \<and> s \<in> fst ` set SCHEMAS"
  by (cases name) (auto split: option.splits)

lemma dict_get_dict_set_other:
  "k' \<noteq> k \<Longrightarrow> dict_get (dict_set k v kvs) k' = dict_get kvs k'"
  by (simp add: dict_get_def map_of_dict_set)

lemma validate_true_shape:
  assumes "validate_tool_call tool_call = (True, tc')"
  shows "\<exists>d name. tc' = PDict d \<and> dict_get d ''name'' = PStr name \<and> name \<in> fst ` set SCHEMAS"
proof (cases tool_call)
  case (PDict d0)
  have n: "py_get tool_call ''name'' PNone = Inr (dict_get d0 ''name'')"
    using PDict by (simp add: dict_get_def)
  from assms obtain s where s: "dict_get d0 ''name'' = PStr s" "s \<in> fst ` set SCHEMAS"
    unfolding validate_tool_call_def n
    by (auto simp: Let_def dest!: in_schemas_True split: sum.splits bool.splits simp del: in_schemas.simps py_get.simps)
  from assms have "tc' = PDict d0 \<or> (\<exists>v. tc' = PDict (dict_set ''args'' v d0))"
    unfolding validate_tool_call_def n
    by (auto simp: Let_def PDict split: sum.splits bool.splits pyval.splits prod.splits simp del: in_schemas.simps py_get.simps)
  then show ?thesis
  proof
    assume "tc' = PDict d0"
    with s show ?thesis by blast
  next
    assume "\<exists>v. tc' = PDict (dict_set ''args'' v d0)"
    then obtain v where "tc' = PDict (dict_set ''args'' v d0)" ..
    moreover have "dict_get (dict_set ''args'' v d0) ''name'' = PStr s"
      using s(1) by (simp add: dict_get_dict_set_other)
    ultimately show ?thesis using s(2) by blast
  qed
qed (use assms in \<open>auto simp: validate_tool_call_def\<close>)

lemma process_reply_shape:
  assumes "process env hist w = (Inr r, w')"
  shows "is_str r \<or> (\<exists>tc name. r = PDict [(''tool_call'', PDict tc)]
            \<and> dict_get tc ''name'' = PStr name \<and> name \<in> fst ` set SCHEMAS)"
  using assms unfolding process_def
  by (auto simp: Let_def split: prod.splits sum.splits pyval.splits if_splits bool.splits
           dest!: validate_true_shape)


lemma the_memory_update [simp]:
  "the_memory uid (update_memory uid f st) = f (the_memory uid st)"
  by (simp add: the_memory_def update_memory_def get_memory_def)

lemma the_memory_outside [simp]:
  "the_memory uid (st\<lparr>outside := w\<rparr>) = the_memory uid st"
  by (simp add: the_memory_def get_memory_def split: option.splits)

lemma outside_update_memory [simp]:
  "outside (update_memory uid f st) = outside st"
  by (simp add: update_memory_def)

lemma the_memory_get_memory [simp]:
  "the_memory uid (snd (get_memory uid st)) = the_memory uid st"
  by (simp add: the_memory_def get_memory_def split: option.splits)

lemma outside_get_memory [simp]:
  "outside (snd (get_memory uid st)) = outside st"
  by (simp add: get_memory_def split: option.splits)

lemma tool_turns_add_tool_result [simp]:
  "tool_turns (history (add_tool_result msg m)) = Suc (tool_turns (history m))"
  by (simp add: tool_turns_def add_tool_result_def turn_def is_tool_turn_def)

lemma tool_turns_add_user_message [simp]:
  "tool_turns (history (add_user_message msg m)) = tool_turns (history m)"
  by (simp add: tool_turns_def add_user_message_def turn_def is_tool_turn_def)

lemma tool_turns_add_bot_message [simp]:
  "tool_turns (history (add_bot_message msg m)) = tool_turns (history m)"
  by (simp add: tool_turns_def add_bot_message_def turn_def is_tool_turn_def)

lemma execute_tool_on_process_reply:
  assumes "process env hist w0 = (Inr reply, w)" and "is_tool_reply reply"
  shows "\<exists>tc result w1. py_index reply ''tool_call'' = Inr (PDict tc)
           \<and> execute_tool env (PDict tc) w = (Inr result, w1)"
proof -
  from process_reply_shape [OF assms(1)] assms(2)
  obtain tc name where r: "reply = PDict [(''tool_call'', PDict tc)]"
    and n: "dict_get tc ''name'' = PStr name"
    by (cases reply) auto
  have "unhashable (dict_get tc ''name'') = None" using n by simp
  from execute_tool_hashable_name [OF this, of env w] r show ?thesis by auto
qed

lemma tool_loop_run:
  assumes "tool_loop env uid i reply st = (res, st')"
    and "i \<le> 4"
    and "process env (history (the_memory uid st)) w0 = (Inr reply, outside st)"
  shows "tool_turns (history (the_memory uid st)) \<le> tool_turns (history (the_memory uid st'))
       \<and> tool_turns (history (the_memory uid st')) + i \<le> tool_turns (history (the_memory uid st)) + 4
       \<and> (\<forall>j reply'. res = Inr (j, reply') \<longrightarrow>
             j \<le> 4
           \<and> tool_turns (history (the_memory uid st')) + i = tool_turns (history (the_memory uid st)) + j
           \<and> (j < 4 \<longrightarrow> \<not> is_tool_reply reply')
           \<and> (\<exists>w1. process env (history (the_memory uid st')) w1 = (Inr reply', outside st')))"
  using assms
proof (induction env uid i reply st arbitrary: w0 rule: tool_loop.induct)
  case (1 env uid i llm_reply st)
  show ?case
  proof (cases "is_tool_reply llm_reply \<and> i < 4")
    case False
    with "1.prems" show ?thesis
      by (auto simp: tool_loop.simps [of env uid i llm_reply st])
  next
    case True
    from execute_tool_on_process_reply [OF "1.prems"(3)] True
    obtain tc tool_result w1 where
      idx: "py_index llm_reply ''tool_call'' = Inr (PDict tc)" and
      ex: "execute_tool env (PDict tc) (outside st) = (Inr tool_result, w1)"
      by auto
    define st1 where "st1 = update_memory uid (add_tool_result tool_result) (st\<lparr>outside := w1\<rparr>)"
    have t1: "tool_turns (history (the_memory uid st1)) = Suc (tool_turns (history (the_memory uid st)))"
      by (simp add: st1_def)
    obtain r2 w2 where p: "process env (history (the_memory uid st1)) (outside st1) = (r2, w2)"
      by (cases "process env (history (the_memory uid st1)) (outside st1)") auto
    have p': "process env (history (add_tool_result tool_result (the_memory uid st))) w1 = (r2, w2)"
      using p by (simp add: st1_def)
    show ?thesis
    proof (cases r2)
      case (Inl e)
      have "tool_loop env uid i llm_reply st = (Inl e, st1\<lparr>outside := w2\<rparr>)"
        using True idx ex p' Inl
        by (simp add: tool_loop.simps [of env uid i llm_reply st] st1_def Let_def)
      with "1.prems"(1) have "res = Inl e" "st' = st1\<lparr>outside := w2\<rparr>" by auto
      with t1 True show ?thesis by auto
    next
      case (Inr reply2)
      have eq: "tool_loop env uid i llm_reply st = tool_loop env uid (i + 1) reply2 (st1\<lparr>outside := w2\<rparr>)"
        using True idx ex p' Inr
        by (simp add: tool_loop.simps [of env uid i llm_reply st] st1_def Let_def)
      have run: "tool_loop env uid (i + 1) reply2 (st1\<lparr>outside := w2\<rparr>) = (res, st')"
        using eq "1.prems"(1) by simp
      have le: "i + 1 \<le> 4" using True by simp
      have pr: "process env (history (the_memory uid (st1\<lparr>outside := w2\<rparr>))) (outside st1)
                = (Inr reply2, outside (st1\<lparr>outside := w2\<rparr>))"
        using p Inr by simp
      have st1': "st1 = update_memory uid (add_tool_result tool_result) (st\<lparr>outside := w1\<rparr>)"
        by (rule st1_def)
      note IH = "1.IH" [OF True idx ex [symmetric] refl st1' p [symmetric] Inr run le pr]
      from IH t1 show ?thesis by auto
    qed
  qed
qed

text \<open>
  C1, amended.  A call of \<open>handle_user_input\<close> dispatches at most four tool calls.  When
  it returns after four dispatches it returns the fixed apology, whatever the pipeline
  answered after the fourth dispatch; when it returns after fewer, it returns the last
  output of the pipeline (the output of \<open>process\<close> on the history as it was before the
  reply was appended), which is a string.
\<close>

theorem dispatch_cap:
  assumes "handle_user_input env uid user_input st = (res, st')"
  shows "dispatches uid st st' \<le> 4
       \<and> (\<forall>r. res = Inr r \<longrightarrow>
            (dispatches uid st st' = 4 \<longrightarrow> r = PStr apology)
          \<and> (dispatches uid st st' < 4 \<longrightarrow>
               is_str r
             \<and> (\<exists>w. process env (butlast (history (the_memory uid st'))) w = (Inr r, outside st'))))"
proof -
  define st1 where "st1 = update_memory uid (add_user_message user_input) (snd (get_memory uid st))"
  have t1: "tool_turns (history (the_memory uid st1)) = tool_turns (history (the_memory uid st))"
    by (simp add: st1_def)
  obtain r1 w where p: "process env (history (the_memory uid st1)) (outside st1) = (r1, w)"
    by (cases "process env (history (the_memory uid st1)) (outside st1)") auto
  have p': "process env (history (add_user_message user_input (the_memory uid st))) (outside st) = (r1, w)"
    using p by (simp add: st1_def)
  show ?thesis
  proof (cases r1)
    case (Inl e)
    with p' assms have "res = Inl e" "st' = st1\<lparr>outside := w\<rparr>"
      by (simp_all add: handle_user_input_def st1_def Let_def)
    with t1 show ?thesis by (simp add: dispatches_def)
  next
    case (Inr reply)
    obtain lres st2 where l: "tool_loop env uid 0 reply (st1\<lparr>outside := w\<rparr>) = (lres, st2)"
      by (cases "tool_loop env uid 0 reply (st1\<lparr>outside := w\<rparr>)") auto
    have pr: "process env (history (the_memory uid (st1\<lparr>outside := w\<rparr>))) (outside st1)
              = (Inr reply, outside (st1\<lparr>outside := w\<rparr>))"
      using p Inr by simp
    note run = tool_loop_run [OF l _ pr, simplified]
    show ?thesis
    proof (cases lres)
      case (Inl e)
      with p' \<open>r1 = Inr reply\<close> l [unfolded st1_def] assms have "res = Inl e" "st' = st2"
        by (simp_all add: handle_user_input_def Let_def)
      moreover from run t1
      have "tool_turns (history (the_memory uid st2)) \<le> tool_turns (history (the_memory uid st)) + 4"
        by simp
      ultimately show ?thesis by (simp add: dispatches_def)
    next
      case (Inr jr)
      obtain j reply' where jr: "jr = (j, reply')" by (cases jr) auto
      define r where "r = (if j > 3 then PStr apology else reply')"
      from p' \<open>r1 = Inr reply\<close> l [unfolded st1_def] Inr jr assms
      have res: "res = Inr r" and st': "st' = update_memory uid (add_bot_message r) st2"
        by (auto simp: handle_user_input_def Let_def r_def)
      from run Inr jr have j4: "j \<le> 4"
        and tj: "tool_turns (history (the_memory uid st2)) = tool_turns (history (the_memory uid st1)) + j"
        and nt: "j < 4 \<longrightarrow> \<not> is_tool_reply reply'"
        and last: "\<exists>w1. process env (history (the_memory uid st2)) w1 = (Inr reply', outside st2)"
        by auto
      have d: "dispatches uid st st' = j"
        using tj t1 by (simp add: dispatches_def st')
      have bl: "butlast (history (the_memory uid st')) = history (the_memory uid st2)"
        by (simp add: st' add_bot_message_def)
      have o: "outside st' = outside st2"
        by (simp add: st')
      have str: "j < 4 \<Longrightarrow> is_str reply'"
      proof -
        assume "j < 4"
        with nt have n: "\<not> is_tool_reply reply'" by simp
        from last obtain w1 where "process env (history (the_memory uid st2)) w1 = (Inr reply', outside st2)" ..
        from process_reply_shape [OF this] n show ?thesis by auto
      qed
      show ?thesis
        unfolding d bl o using res j4 str last by (auto simp: r_def)
    qed
  qed
qed

text \<open>
  C1 as stated fails: the apology does not wait for a fifth tool call.  In this run the
  pipeline asks for four cancellations and then answers \<open>All done.\<close>, a string, so no
  fifth dispatch would occur; the user still gets the apology.
\<close>

theorem dispatch_cap_counterexample:
  "dispatches ''u1'' agent0
     (snd (handle_user_input four_cancellations ''u1'' (PStr ''Cancel ABC123'') agent0)) = 4
   \<and> process four_cancellations
       (butlast (history (the_memory ''u1''
          (snd (handle_user_input four_cancellations ''u1'' (PStr ''Cancel ABC123'') agent0)))))
       \<lparr>llm_calls = 8,
        http_log = http_log (outside
          (snd (handle_user_input four_cancellations ''u1'' (PStr ''Cancel ABC123'') agent0)))\<rparr>
     = (Inr (PStr ''All done.''),
        outside (snd (handle_user_input four_cancellations ''u1'' (PStr ''Cancel ABC123'') agent0)))
   \<and> \<not> is_tool_reply (PStr ''All done.'')
   \<and> fst (handle_user_input four_cancellations ''u1'' (PStr ''Cancel ABC123'') agent0)
     = Inr (PStr ''Sorry, I have encountered an error, please can you repeat your request'')"
  by code_simp

theorem dispatch_cap_witness:
  "dispatches ''u1'' agent0
     (snd (handle_user_input one_cancellation ''u1'' (PStr ''Cancel ABC123'') agent0)) = 1
   \<and> fst (handle_user_input one_cancellation ''u1'' (PStr ''Cancel ABC123'') agent0)
     = Inr (PStr ''All done.'')
   \<and> (\<exists>w. process one_cancellation
        (butlast (history (the_memory ''u1''
           (snd (handle_user_input one_cancellation ''u1'' (PStr ''Cancel ABC123'') agent0))))) w
        = (Inr (PStr ''All done.''),
           outside (snd (handle_user_input one_cancellation ''u1'' (PStr ''Cancel ABC123'') agent0))))"
proof -
  let ?run = "handle_user_input one_cancellation ''u1'' (PStr ''Cancel ABC123'') agent0"
  have run: "?run = (fst ?run, snd ?run)" by simp
  have d: "dispatches ''u1'' agent0 (snd ?run) = 1" by code_simp
  have r: "fst ?run = Inr (PStr ''All done.'')" by code_simp
  from dispatch_cap [OF run] d r show ?thesis by simp
qed

subsection \<open>The summary log\<close>

text \<open>Reading back a text that ends with a freshly written line.\<close>

lemma universal_newlines_no_cr:
  "CHR 13 \<notin> set s \<Longrightarrow> universal_newlines s = s"
  by (induction s rule: universal_newlines.induct) auto

lemma universal_newlines_append:
  "xs = [] \<or> last xs \<noteq> CHR 13 \<Longrightarrow>
     universal_newlines (xs @ ys) = universal_newlines xs @ universal_newlines ys"
proof (induction xs rule: universal_newlines.induct)
  case 1
  then show ?case by simp
next
  case (2 c)
  then show ?case by (cases ys) auto
next
  case (3 c d cs)
  then show ?case by (auto split: if_splits)
qed

lemma universal_newlines_last:
  "xs \<noteq> [] \<Longrightarrow> last xs = CHR 10 \<Longrightarrow>
     universal_newlines xs \<noteq> [] \<and> last (universal_newlines xs) = CHR 10"
  by (induction xs rule: universal_newlines.induct) (auto split: if_splits)

lemma readlines_empty:
  "readlines xs = [] \<longleftrightarrow> xs = []"
  by (cases xs) (auto split: list.splits)

lemma readlines_append:
  "xs = [] \<or> last xs = CHR 10 \<Longrightarrow> readlines (xs @ ys) = readlines xs @ readlines ys"
  by (induction xs) (auto simp: readlines_empty split: list.splits if_splits)

lemma readlines_one_line:
  "CHR 10 \<notin> set d \<Longrightarrow> readlines (d @ [CHR 10]) = [d @ [CHR 10]]"
  by (induction d) auto

lemma last_line_after_append:
  assumes "old = [] \<or> last old = CHR 10"
    and "CHR 10 \<notin> set d" and "CHR 13 \<notin> set d"
  shows "readlines (universal_newlines (old @ d @ [CHR 10])) \<noteq> []
       \<and> last (readlines (universal_newlines (old @ d @ [CHR 10]))) = d @ [CHR 10]"
proof -
  have o: "old = [] \<or> last old \<noteq> CHR 13" using assms(1) by auto
  have u: "universal_newlines (old @ d @ [CHR 10]) = universal_newlines old @ d @ [CHR 10]"
    using universal_newlines_append [OF o, of "d @ [CHR 10]"] assms(3)
    by (simp add: universal_newlines_no_cr)
  have e: "universal_newlines old = [] \<or> last (universal_newlines old) = CHR 10"
  proof (cases "old = []")
    case True
    then show ?thesis by simp
  next
    case False
    with assms(1) universal_newlines_last [of old] show ?thesis by simp
  qed
  show ?thesis
    unfolding u
    using readlines_append [OF e, of "d @ [CHR 10]"] readlines_one_line [OF assms(2)]
    by simp
qed

text \<open>
  After \<open>store_summary\<close> the log exists and ends with a newline, so a log that only
  \<open>store_summary\<close> writes is always in the state the round trip asks for.
\<close>

lemma store_summary_terminated:
  "\<exists>text. store_summary env now summary m fs (summary_file m) = Some text
       \<and> text \<noteq> [] \<and> last text = CHR 10"
  by (simp add: store_summary_def)

text \<open>
  C8.  \<open>store_summary(s)\<close> on a memory of user \<open>uid\<close>, then \<open>get_last_summary\<close> on any
  memory of the same user (the same object, or a new one after a restart), returns
  exactly \<open>s\<close>.  What is asked of the outside: \<open>json.loads\<close> reads back the line
  \<open>json.dumps\<close> has written, that line has no line break inside, and the log is absent,
  empty or ends with a newline.
\<close>

theorem summary_round_trip:
  assumes writer: "m = (new_memory uid)\<lparr>history := h\<rparr>"
    and reader: "m' = (new_memory uid)\<lparr>history := h'\<rparr>"
    and round_trip: "json_loads env (json_dumps env (summary_record now s m) @ [CHR 10])
                       = Some (summary_record now s m)"
    and one_line: "CHR 10 \<notin> set (json_dumps env (summary_record now s m))"
                  "CHR 13 \<notin> set (json_dumps env (summary_record now s m))"
    and log: "fs (summary_file m) = None
              \<or> (\<exists>old. fs (summary_file m) = Some old \<and> (old = [] \<or> last old = CHR 10))"
  shows "get_last_summary env m' (store_summary env now s m fs) = PStr s"
proof -
  let ?d = "json_dumps env (summary_record now s m)"
  define old where "old = (case fs (summary_file m) of None \<Rightarrow> [] | Some text \<Rightarrow> text)"
  have o: "old = [] \<or> last old = CHR 10"
    using log by (auto simp: old_def)
  have f: "summary_file m' = summary_file m"
    by (simp add: writer reader new_memory_def)
  have w: "store_summary env now s m fs (summary_file m') = Some (old @ ?d @ [CHR 10])"
    by (simp add: store_summary_def f old_def)
  from last_line_after_append [OF o one_line]
  have l: "readlines (universal_newlines (old @ ?d @ [CHR 10])) \<noteq> []"
    "last (readlines (universal_newlines (old @ ?d @ [CHR 10]))) = ?d @ [CHR 10]"
    by auto
  show ?thesis
    unfolding get_last_summary_def w
    by (simp add: l round_trip Let_def) (simp add: summary_record_def)
qed

theorem summary_round_trip_witness:
  "get_last_summary summary_env (new_memory ''u1'')
     (store_summary summary_env ''2025-08-10T19:00:00.000000'' ''Booked a table for 4.''
        (new_memory ''u1'') Map.empty)
   = PStr ''Booked a table for 4.''"
proof -
  let ?m = "new_memory ''u1''"
  let ?r = "summary_record ''2025-08-10T19:00:00.000000'' ''Booked a table for 4.'' ?m"
  have m: "?m = (new_memory ''u1'')\<lparr>history := []\<rparr>"
    by (simp add: new_memory_def)
  have r: "?r = snd summary_line"
    by (simp add: summary_record_def summary_line_def new_memory_def)
  have d: "json_dumps summary_env ?r = fst summary_line"
    by (simp add: r summary_env_def)
  have round_trip: "json_loads summary_env (json_dumps summary_env ?r @ [CHR 10]) = Some ?r"
    unfolding d by (simp add: r summary_env_def)
  have one_line: "CHR 10 \<notin> set (json_dumps summary_env ?r)" "CHR 13 \<notin> set (json_dumps summary_env ?r)"
    unfolding d by (simp_all add: summary_line_def)
  have log: "Map.empty (summary_file ?m) = None
              \<or> (\<exists>old. Map.empty (summary_file ?m) = Some old \<and> (old = [] \<or> last old = CHR 10))"
    by simp
  from summary_round_trip [OF m m round_trip one_line log] show ?thesis .
qed

end
